theory Spec2Isabelle
  imports Complex_Main
begin

section \<open>Numbers\<close>

text \<open>
  JavaScript numbers are IEEE 754 doubles. The canvas animation is modelled over the
  reals, with exact arithmetic. The colour wave is modelled in double arithmetic: every
  operation of the source is the exact operation followed by rounding to the nearest
  number of 53 significant bits, ties to even (\<open>to_double\<close>). The exponent range is
  not bounded: overflow to \<open>Infinity\<close> and gradual underflow are not modelled, so the
  operations are those of the program for operands and results whose magnitude is
  between \<open>2 ^ -1022\<close> and \<open>2 ^ 1024\<close>. \<open>None\<close> stands for the non-finite results
  (\<open>NaN\<close>, \<open>Infinity\<close>) that a division or a remainder by zero gives.
\<close>

section \<open>The canvas network animation (src/js/net.js)\<close>

text \<open>
  The closure variables read by \<open>Particle.update\<close>: the size of the canvas and the
  bounding rectangle of the title element (\<open>titleBox.left\<close>, \<open>titleBox.top\<close>,
  \<open>titleBox.width\<close>, \<open>titleBox.height\<close>).
\<close>

record env =
  canvas_width :: real
  canvas_height :: real
  titleBox_left :: real
  titleBox_top :: real
  titleBox_width :: real
  titleBox_height :: real

text \<open>
  The fields of \<open>class Particle\<close>. The coordinates \<open>this.x\<close> and \<open>this.y\<close> are the
  fields \<open>px\<close> and \<open>py\<close>, \<open>this.color\<close> is \<open>colour\<close>; the other fields keep their names.
\<close>

record particle =
  px :: real
  py :: real
  radius :: real
  colour :: string
  baseX :: real
  baseY :: real
  directionX :: real
  directionY :: real
  collision :: bool

text \<open>
  The constructor draws both velocity components as \<open>Math.random() * 4 - 2\<close>; the two
  random numbers, in \<open>[0, 1)\<close>, are parameters here.
\<close>

definition new_Particle :: "real \<Rightarrow> real \<Rightarrow> real \<Rightarrow> string \<Rightarrow> real \<Rightarrow> real \<Rightarrow> particle" where
  "new_Particle x y r c rnd1 rnd2 =
     \<lparr>px = x, py = y, radius = r, colour = c, baseX = x, baseY = y,
      directionX = rnd1 * 4 - 2, directionY = rnd2 * 4 - 2, collision = False\<rparr>"

text \<open>
  \<open>Particle.update\<close>, statement by statement. Lines 31-32: the position moves by the
  velocity.
\<close>

definition move :: "particle \<Rightarrow> particle" where
  "move p = p\<lparr>px := px p + directionX p, py := py p + directionY p\<rparr>"

text \<open>Lines 33-35: the test against the left and right edges of the canvas.\<close>

definition wallBounceX :: "env \<Rightarrow> particle \<Rightarrow> particle" where
  "wallBounceX e p =
     (if px p + radius p + directionX p \<ge> canvas_width e \<or> px p - radius p + directionX p \<le> 0
      then p\<lparr>directionX := - directionX p\<rparr> else p)"

text \<open>Lines 36-38: the test against the top and bottom edges of the canvas.\<close>

definition wallBounceY :: "env \<Rightarrow> particle \<Rightarrow> particle" where
  "wallBounceY e p =
     (if py p + radius p + directionY p \<ge> canvas_height e \<or> py p - radius p + directionY p \<le> 0
      then p\<lparr>directionY := - directionY p\<rparr> else p)"

text \<open>Lines 40-44: the flag \<open>this.collision\<close> is set from the overlap with the title box.\<close>

definition overlapsTitle :: "env \<Rightarrow> real \<Rightarrow> real \<Rightarrow> real \<Rightarrow> bool" where
  "overlapsTitle e x y r \<longleftrightarrow>
     x + r > titleBox_left e \<and> x - r < titleBox_left e + titleBox_width e \<and>
     y + r > titleBox_top e \<and> y - r < titleBox_top e + titleBox_height e"

definition detectCollision :: "env \<Rightarrow> particle \<Rightarrow> particle" where
  "detectCollision e p =
     (if overlapsTitle e (px p) (py p) (radius p)
      then p\<lparr>collision := True\<rparr> else p\<lparr>collision := False\<rparr>)"

text \<open>Lines 45-53: the chain of \<open>if\<close> / \<open>else if\<close> on the four edges of the title box.\<close>

definition obstacleBounce :: "env \<Rightarrow> particle \<Rightarrow> particle" where
  "obstacleBounce e p =
     (if collision p = True \<and> px p + radius p < titleBox_left e + 10
        then p\<lparr>directionX := - directionX p\<rparr>
      else if collision p = True \<and> px p - radius p > titleBox_left e + titleBox_width e - 10
        then p\<lparr>directionX := - directionX p\<rparr>
      else if collision p = True \<and> py p + radius p < titleBox_top e + 10
        then p\<lparr>directionY := - directionY p\<rparr>
      else if collision p = True \<and> py p - radius p > titleBox_top e + titleBox_height e - 10
        then p\<lparr>directionY := - directionY p\<rparr>
      else p)"

definition update :: "env \<Rightarrow> particle \<Rightarrow> particle" where
  "update e p = obstacleBounce e (detectCollision e (wallBounceY e (wallBounceX e (move p))))"

text \<open>The state after \<open>n\<close> frames, for one particle.\<close>

fun ticks :: "env \<Rightarrow> nat \<Rightarrow> particle \<Rightarrow> particle" where
  "ticks e 0 p = p"
| "ticks e (Suc n) p = ticks e n (update e p)"

text \<open>
  What a frame puts on the canvas: \<open>clearRect\<close>, the filled circle of \<open>Particle.draw\<close>
  (centre, radius, fill style) and the stroked segment of the connector pass (both end
  points and the opacity in its \<open>rgba\<close> stroke style).
\<close>

datatype draw_cmd =
    ClearRect real real real real
  | FillCircle real real real string
  | StrokeLine real real real real real

definition draw :: "particle \<Rightarrow> draw_cmd" where
  "draw p = FillCircle (px p) (py p) (radius p) (colour p)"

text \<open>Lines 84-97: the body of the inner loop of \<open>animate\<close>, for the particles \<open>i\<close> and \<open>j\<close>.\<close>

definition connect :: "particle \<Rightarrow> particle \<Rightarrow> draw_cmd list" where
  "connect p q =
     (let dx = px p - px q;
          dy = py p - py q;
          distance = sqrt (dx * dx + dy * dy);
          maxDistance = 250;
          opacity = 1 - distance / maxDistance
      in if distance < maxDistance
         then [StrokeLine (px p) (py p) (px q) (py q) opacity]
         else [])"

text \<open>Line 77: \<open>for (let j = i; j < particlesArray.length; j++)\<close>.\<close>

function innerLoop :: "particle list \<Rightarrow> nat \<Rightarrow> nat \<Rightarrow> draw_cmd list" where
  "innerLoop ps i j =
     (if j < length ps then connect (ps ! i) (ps ! j) @ innerLoop ps i (j + 1) else [])"
  by pat_completeness auto
termination
  by (relation "measure (\<lambda>(ps, i, j). length ps - j)") auto

text \<open>
  Line 74: \<open>for (let i = 0; i < particlesArray.length; i++)\<close>. Particle \<open>i\<close> is drawn,
  then updated in place, then connected to the particles \<open>i, i + 1, ...\<close> of the array
  as it is at that moment. The result is the commands issued and the array at the end.
\<close>

function outerLoop :: "env \<Rightarrow> nat \<Rightarrow> particle list \<Rightarrow> draw_cmd list \<times> particle list" where
  "outerLoop e i ps =
     (if i < length ps
      then (let c = draw (ps ! i);
                ps' = ps[i := update e (ps ! i)];
                (cs, ps'') = outerLoop e (i + 1) ps'
            in (c # innerLoop ps' i i @ cs, ps''))
      else ([], ps))"
  by pat_completeness auto
termination
  by (relation "measure (\<lambda>(e, i, ps). length ps - i)") auto

definition animate :: "env \<Rightarrow> particle list \<Rightarrow> draw_cmd list \<times> particle list" where
  "animate e ps =
     (let (cs, ps') = outerLoop e 0 ps
      in (ClearRect 0 0 (canvas_width e) (canvas_height e) # cs, ps'))"

declare innerLoop.simps [simp del] outerLoop.simps [simp del]

text \<open>
  Two abbreviations for stating what the loops do. \<open>distance p q\<close> is the value of the
  local variable \<open>distance\<close> of line 86. \<open>frame_of e ps i\<close> is what round \<open>i\<close> of the
  outer loop issues, in terms of the array \<open>ps\<close> at the start of the frame: particle
  \<open>i\<close> has been updated when it is connected, the particles after it have not.
\<close>

definition distance :: "particle \<Rightarrow> particle \<Rightarrow> real" where
  "distance p q = sqrt ((px p - px q) * (px p - px q) + (py p - py q) * (py p - py q))"

definition frame_of :: "env \<Rightarrow> particle list \<Rightarrow> nat \<Rightarrow> draw_cmd list" where
  "frame_of e ps i =
     draw (ps ! i) #
     concat (map (\<lambda>j. connect (update e (ps ! i)) (if j = i then update e (ps ! i) else ps ! j))
               [i..<length ps])"

text \<open>
  Two predicates for the bounded-domain property. \<open>in_bounce_range w x d\<close>: a coordinate
  \<open>x\<close> with velocity \<open>d\<close> is inside \<open>[0, w]\<close>, or has overshot an edge by at most one
  step and is heading back. \<open>titleInside e r\<close>: the title box, inflated by \<open>r\<close> on
  every side, lies inside the canvas.
\<close>

definition in_bounce_range :: "real \<Rightarrow> real \<Rightarrow> real \<Rightarrow> bool" where
  "in_bounce_range w x d \<longleftrightarrow> (if d < 0 then 0 \<le> x \<and> x \<le> w - d else - d \<le> x \<and> x \<le> w)"

definition titleInside :: "env \<Rightarrow> real \<Rightarrow> bool" where
  "titleInside e r \<longleftrightarrow>
     r \<le> titleBox_left e \<and> titleBox_left e + titleBox_width e + r \<le> canvas_width e \<and>
     r \<le> titleBox_top e \<and> titleBox_top e + titleBox_height e + r \<le> canvas_height e"

text \<open>
  Concrete inputs. The particle of the second end-to-end scenario, on a canvas of
  \<open>100 x 100\<close> with a title box in the middle; a canvas whose title box spans its full
  width, with a particle created half a pixel from the right edge (the two random
  numbers are \<open>0.875\<close> and \<open>0.5\<close>, so its velocity is \<open>(1.5, 0)\<close>); a particle entering
  the corner of the title box; three particles at distances \<open>5\<close> and \<open>500\<close>.
\<close>

definition scenario2_particle :: particle where
  "scenario2_particle =
     \<lparr>px = 5, py = 5, radius = 2, colour = ''rgb(255, 255, 255)'', baseX = 5, baseY = 5,
      directionX = - 1, directionY = - 1, collision = False\<rparr>"

definition scenario2_env :: env where
  "scenario2_env =
     \<lparr>canvas_width = 100, canvas_height = 100, titleBox_left = 40, titleBox_top = 40,
      titleBox_width = 20, titleBox_height = 10\<rparr>"

definition wide_title_env :: env where
  "wide_title_env =
     \<lparr>canvas_width = 100, canvas_height = 100, titleBox_left = 0, titleBox_top = 40,
      titleBox_width = 100, titleBox_height = 20\<rparr>"

definition edge_particle :: particle where
  "edge_particle = new_Particle 99.5 50 2 ''rgb(255, 255, 255)'' 0.875 0.5"

definition corner_particle :: particle where
  "corner_particle =
     \<lparr>px = 40, py = 40, radius = 2, colour = ''rgb(255, 255, 255)'', baseX = 40, baseY = 40,
      directionX = 1, directionY = 1, collision = False\<rparr>"

definition particle_at :: "real \<Rightarrow> real \<Rightarrow> particle" where
  "particle_at x y =
     \<lparr>px = x, py = y, radius = 2, colour = ''rgb(255, 255, 255)'', baseX = x, baseY = y,
      directionX = 0, directionY = 0, collision = False\<rparr>"

section \<open>The colour wave of the molecule viewer (updateColors)\<close>

text \<open>
  Rounding to the nearest integer, ties to even, and rounding of a real to the nearest
  double: the number is scaled by the power of two that puts its 53 significant bits
  before the point, rounded to an integer, and scaled back.
\<close>

definition round_even :: "real \<Rightarrow> int" where
  "round_even y =
     (let n = \<lfloor>y\<rfloor>; d = y - of_int n
      in if d < 1 / 2 then n else if 1 / 2 < d then n + 1 else if even n then n else n + 1)"

definition to_double :: "real \<Rightarrow> real" where
  "to_double x =
     (if x = 0 then 0
      else (let e = \<lfloor>log 2 \<bar>x\<bar>\<rfloor>; q = 2 powi (e - 52)
            in of_int (round_even (x / q)) * q))"

text \<open>
  The operators \<open>+\<close>, \<open>-\<close>, \<open>*\<close>, \<open>/\<close> and \<open>%\<close> on doubles. The remainder \<open>x % y\<close> has
  the sign of \<open>x\<close>: the quotient is truncated towards zero; it is exact, so that it is
  not rounded.
\<close>

definition js_add :: "real \<Rightarrow> real \<Rightarrow> real" where
  "js_add a b = to_double (a + b)"

definition js_sub :: "real \<Rightarrow> real \<Rightarrow> real" where
  "js_sub a b = to_double (a - b)"

definition js_mul :: "real \<Rightarrow> real \<Rightarrow> real" where
  "js_mul a b = to_double (a * b)"

definition js_div :: "real \<Rightarrow> real \<Rightarrow> real option" where
  "js_div a b = (if b = 0 then None else Some (to_double (a / b)))"

definition trunc :: "real \<Rightarrow> int" where
  "trunc z = (if 0 \<le> z then \<lfloor>z\<rfloor> else \<lceil>z\<rceil>)"

definition js_rem :: "real \<Rightarrow> real \<Rightarrow> real option" where
  "js_rem a b = (if b = 0 then None else Some (a - b * of_int (trunc (a / b))))"

text \<open>The constants of lines 14 and 15: the doubles that the literals denote.\<close>

definition colorWaveSpeed :: real where
  "colorWaveSpeed = to_double 0.5"

definition colorWaveFrequency :: real where
  "colorWaveFrequency = to_double 0.1"

text \<open>Line 154: the normalized height of a vertex.\<close>

definition normalizedY :: "real \<Rightarrow> real \<Rightarrow> real \<Rightarrow> real option" where
  "normalizedY y ymin yrange =
     (if yrange > 0 then js_div (js_sub y ymin) yrange else Some 0.5)"

text \<open>Line 158: the hue, from a finite normalized height and the elapsed time.\<close>

definition hue :: "real \<Rightarrow> real \<Rightarrow> real option" where
  "hue h time = js_rem (js_add (js_mul h colorWaveFrequency) (js_mul time colorWaveSpeed)) 1"

text \<open>Lines 151-158 together; a non-finite height gives a non-finite hue.\<close>

definition vertexHue :: "real \<Rightarrow> real \<Rightarrow> real \<Rightarrow> real \<Rightarrow> real option" where
  "vertexHue time ymin yrange y =
     (case normalizedY y ymin yrange of None \<Rightarrow> None | Some h \<Rightarrow> hue h time)"

text \<open>
  The geometry of three.js is outside the repository. A position attribute is the list
  of its vertices, \<open>count\<close> its length and \<open>getY\<close> the second coordinate. A colour
  attribute holds one colour per vertex and the flag \<open>needsUpdate\<close>; \<open>setXYZ\<close> stores
  into a typed array, where a store beyond the end is ignored, as \<open>list_update\<close> does.
  An attribute that is missing (\<open>undefined\<close>) is \<open>None\<close>. The conversion
  \<open>color.setHSL(hue, 1.0, 0.5)\<close> followed by reading \<open>color.r\<close>, \<open>color.g\<close>, \<open>color.b\<close>
  is a parameter \<open>setHSL\<close>, and the type of the colours it returns is left open.
\<close>

record 'c color_attribute =
  array :: "'c list"
  needsUpdate :: bool

record 'c item =
  position_attr :: "(real \<times> real \<times> real) list option"
  color_attr :: "'c color_attribute option"
  yMin :: real
  yRange :: real

definition getY :: "real \<times> real \<times> real \<Rightarrow> real" where
  "getY v = fst (snd v)"

datatype error = TypeError

definition missing_color_warning :: string where
  "missing_color_warning = ''Geometry missing color attribute for dynamic coloring.''"

text \<open>Lines 150-165: \<open>for (let i = 0; i < count; i++)\<close>.\<close>

function colorLoop ::
  "(real option \<Rightarrow> real \<Rightarrow> real \<Rightarrow> 'c) \<Rightarrow> real \<Rightarrow> real \<Rightarrow> real \<Rightarrow>
   (real \<times> real \<times> real) list \<Rightarrow> nat \<Rightarrow> 'c list \<Rightarrow> 'c list" where
  "colorLoop setHSL time ymin yrange positions i colors =
     (if i < length positions
      then colorLoop setHSL time ymin yrange positions (i + 1)
             (colors[i := setHSL (vertexHue time ymin yrange (getY (positions ! i))) 1 0.5])
      else colors)"
  by pat_completeness auto
termination
  by (relation "measure (\<lambda>(setHSL, time, ymin, yrange, positions, i, colors). length positions - i)")
    auto

text \<open>
  Lines 135-169: the callback of \<open>atomMeshes.forEach\<close>, for one item. It returns the
  warnings logged and the item afterwards, or the exception: \<open>positions.count\<close> on a
  missing position attribute is a \<open>TypeError\<close>, and it is read after the test of the
  colour attribute.
\<close>

definition updateItem ::
  "(real option \<Rightarrow> real \<Rightarrow> real \<Rightarrow> 'c) \<Rightarrow> real \<Rightarrow> 'c item \<Rightarrow> error + (string list \<times> 'c item)" where
  "updateItem setHSL time item =
     (case color_attr item of
        None \<Rightarrow> Inr ([missing_color_warning], item)
      | Some colorsAttribute \<Rightarrow>
          (case position_attr item of
             None \<Rightarrow> Inl TypeError
           | Some positions \<Rightarrow>
               Inr ([], item\<lparr>color_attr := Some (colorsAttribute
                      \<lparr>array := colorLoop setHSL time (yMin item) (yRange item) positions 0
                                  (array colorsAttribute),
                       needsUpdate := True\<rparr>)\<rparr>)))"

text \<open>\<open>updateColors\<close>: the items of \<open>atomMeshes\<close> in order; an exception ends the call.\<close>

fun updateColors ::
  "(real option \<Rightarrow> real \<Rightarrow> real \<Rightarrow> 'c) \<Rightarrow> real \<Rightarrow> 'c item list \<Rightarrow> error + (string list \<times> 'c item list)" where
  "updateColors setHSL time [] = Inr ([], [])"
| "updateColors setHSL time (item # rest) =
     (case updateItem setHSL time item of
        Inl err \<Rightarrow> Inl err
      | Inr (w, item') \<Rightarrow>
          (case updateColors setHSL time rest of
             Inl err \<Rightarrow> Inl err
           | Inr (ws, rest') \<Rightarrow> Inr (w @ ws, item' # rest')))"

declare colorLoop.simps [simp del]

text \<open>
  Concrete inputs. The conversion is replaced by the triple of its arguments. An item of
  two vertices on an extent of \<open>10\<close>, a flat item (\<open>yMax = yMin = 3\<close>), and an item
  without colour attribute.
\<close>

definition hsl_args :: "real option \<Rightarrow> real \<Rightarrow> real \<Rightarrow> real option \<times> real \<times> real" where
  "hsl_args h s l = (h, s, l)"

definition wave_item :: "(real option \<times> real \<times> real) item" where
  "wave_item =
     \<lparr>position_attr = Some [(0, 0, 0), (0, 10, 0)],
      color_attr = Some \<lparr>array = [(None, 0, 0), (None, 0, 0)], needsUpdate = False\<rparr>,
      yMin = 0, yRange = 10\<rparr>"

definition flat_item :: "(real option \<times> real \<times> real) item" where
  "flat_item =
     \<lparr>position_attr = Some [(1, 3, 0), (2, 3, 5)],
      color_attr = Some \<lparr>array = [(None, 0, 0), (None, 0, 0)], needsUpdate = False\<rparr>,
      yMin = 3, yRange = 0\<rparr>"

definition bare_item :: "(real option \<times> real \<times> real) item" where
  "bare_item = \<lparr>position_attr = Some [(0, 1, 0)], color_attr = None, yMin = 0, yRange = 1\<rparr>"


section \<open>The particle update: what each statement changes\<close>

lemma move_fields:
  "px (move p) = px p + directionX p" "py (move p) = py p + directionY p"
  "radius (move p) = radius p" "directionX (move p) = directionX p"
  "directionY (move p) = directionY p"
  by (simp_all add: move_def)

lemma wallBounceX_fields:
  "px (wallBounceX e p) = px p" "py (wallBounceX e p) = py p"
  "radius (wallBounceX e p) = radius p" "directionY (wallBounceX e p) = directionY p"
  by (simp_all add: wallBounceX_def)

lemma wallBounceY_fields:
  "px (wallBounceY e p) = px p" "py (wallBounceY e p) = py p"
  "radius (wallBounceY e p) = radius p" "directionX (wallBounceY e p) = directionX p"
  by (simp_all add: wallBounceY_def)

lemma detectCollision_fields:
  "px (detectCollision e p) = px p" "py (detectCollision e p) = py p"
  "radius (detectCollision e p) = radius p" "directionX (detectCollision e p) = directionX p"
  "directionY (detectCollision e p) = directionY p"
  "collision (detectCollision e p) = overlapsTitle e (px p) (py p) (radius p)"
  by (simp_all add: detectCollision_def)

lemma obstacleBounce_fields:
  "px (obstacleBounce e p) = px p" "py (obstacleBounce e p) = py p"
  "radius (obstacleBounce e p) = radius p" "collision (obstacleBounce e p) = collision p"
  by (simp_all add: obstacleBounce_def)

lemmas phase_fields = move_fields wallBounceX_fields wallBounceY_fields detectCollision_fields
  obstacleBounce_fields

lemmas phase_defs = obstacleBounce_def detectCollision_def wallBounceY_def wallBounceX_def move_def

lemma px_update: "px (update e p) = px p + directionX p"
  by (simp only: update_def phase_fields)

lemma py_update: "py (update e p) = py p + directionY p"
  by (simp only: update_def phase_fields)

lemma radius_update: "radius (update e p) = radius p"
  by (simp only: update_def phase_fields)

lemma collision_update:
  "collision (update e p) = overlapsTitle e (px p + directionX p) (py p + directionY p) (radius p)"
  by (simp only: update_def phase_fields)

lemma directionX_wall:
  "directionX (wallBounceX e (move p)) =
     (if px p + directionX p + radius p + directionX p \<ge> canvas_width e \<or>
         px p + directionX p - radius p + directionX p \<le> 0
      then - directionX p else directionX p)"
  by (simp add: wallBounceX_def move_def)

lemma directionY_wall:
  "directionY (wallBounceY e (move p)) =
     (if py p + directionY p + radius p + directionY p \<ge> canvas_height e \<or>
         py p + directionY p - radius p + directionY p \<le> 0
      then - directionY p else directionY p)"
  by (simp add: wallBounceY_def move_def)

lemma directionY_wallBounceY_wallBounceX:
  "directionY (wallBounceY e (wallBounceX e p)) = directionY (wallBounceY e p)"
  by (simp add: wallBounceY_def wallBounceX_fields)

lemma obstacleBounce_directionX:
  "directionX (obstacleBounce e p) = directionX p \<or>
   directionX (obstacleBounce e p) = - directionX p \<and> collision p"
  by (simp add: obstacleBounce_def)

lemma obstacleBounce_directionY:
  "directionY (obstacleBounce e p) = directionY p \<or>
   directionY (obstacleBounce e p) = - directionY p \<and> collision p"
  by (simp add: obstacleBounce_def)

lemma directionX_update_cases:
  "directionX (update e p) = directionX (wallBounceX e (move p)) \<or>
   (directionX (update e p) = - directionX (wallBounceX e (move p)) \<and>
    overlapsTitle e (px p + directionX p) (py p + directionY p) (radius p))"
  using obstacleBounce_directionX [of e "detectCollision e (wallBounceY e (wallBounceX e (move p)))"]
  by (simp only: update_def phase_fields)

lemma directionY_update_cases:
  "directionY (update e p) = directionY (wallBounceY e (move p)) \<or>
   (directionY (update e p) = - directionY (wallBounceY e (move p)) \<and>
    overlapsTitle e (px p + directionX p) (py p + directionY p) (radius p))"
  using obstacleBounce_directionY [of e "detectCollision e (wallBounceY e (wallBounceX e (move p)))"]
  by (simp only: update_def phase_fields directionY_wallBounceY_wallBounceX)

lemma abs_directionX_wall: "\<bar>directionX (wallBounceX e p)\<bar> = \<bar>directionX p\<bar>"
  by (simp add: wallBounceX_def)

lemma abs_directionY_wall: "\<bar>directionY (wallBounceY e p)\<bar> = \<bar>directionY p\<bar>"
  by (simp add: wallBounceY_def)

lemma abs_directionX_update: "\<bar>directionX (update e p)\<bar> = \<bar>directionX p\<bar>"
  using directionX_update_cases [of e p] abs_directionX_wall [of e "move p"]
  by (auto simp: move_fields)

lemma abs_directionY_update: "\<bar>directionY (update e p)\<bar> = \<bar>directionY p\<bar>"
  using directionY_update_cases [of e p] abs_directionY_wall [of e "move p"]
  by (auto simp: move_fields)

section \<open>The position moves by the velocity before the call\<close>

lemma walls_after_move:
  "wallBounceY e (wallBounceX e (move p)) =
     p\<lparr>px := px p + directionX p, py := py p + directionY p,
       directionX :=
         (if px p + directionX p + radius p + directionX p \<ge> canvas_width e \<or>
             px p + directionX p - radius p + directionX p \<le> 0
          then - directionX p else directionX p),
       directionY :=
         (if py p + directionY p + radius p + directionY p \<ge> canvas_height e \<or>
             py p + directionY p - radius p + directionY p \<le> 0
          then - directionY p else directionY p)\<rparr>"
  by (simp add: wallBounceY_def wallBounceX_def move_def)

lemma obstacleBounce_closed:
  "obstacleBounce e (detectCollision e q) =
     q\<lparr>directionX :=
         (if overlapsTitle e (px q) (py q) (radius q) \<and>
             (px q + radius q < titleBox_left e + 10 \<or>
              px q - radius q > titleBox_left e + titleBox_width e - 10)
          then - directionX q else directionX q),
       directionY :=
         (if overlapsTitle e (px q) (py q) (radius q) \<and>
             \<not> px q + radius q < titleBox_left e + 10 \<and>
             \<not> px q - radius q > titleBox_left e + titleBox_width e - 10 \<and>
             (py q + radius q < titleBox_top e + 10 \<or>
              py q - radius q > titleBox_top e + titleBox_height e - 10)
          then - directionY q else directionY q),
       collision := overlapsTitle e (px q) (py q) (radius q)\<rparr>"
  by (simp add: obstacleBounce_def detectCollision_def)

text \<open>
  Claim C10. One call of \<open>update\<close> changes the position by exactly the velocity the
  particle had before the call, and nothing else changes the position. With \<open>xm\<close>,
  \<open>ym\<close> the moved position, the call returns the particle at \<open>(xm, ym)\<close> whose
  velocity is decided by tests made at \<open>(xm, ym)\<close> only: the edge tests of the canvas
  (which look one more step ahead from the moved position) give \<open>wx\<close>, \<open>wy\<close>, the
  overlap with the title box is tested at \<open>(xm, ym)\<close>, and so are the four edge tests
  of the title box. A bounce therefore shows in the position from the next call on: the
  second call moves by the velocity the first call has left.
\<close>

theorem update_moves_by_velocity:
  "(let xm = px p + directionX p;
        ym = py p + directionY p;
        r = radius p;
        wx = (if xm + r + directionX p \<ge> canvas_width e \<or> xm - r + directionX p \<le> 0
              then - directionX p else directionX p);
        wy = (if ym + r + directionY p \<ge> canvas_height e \<or> ym - r + directionY p \<le> 0
              then - directionY p else directionY p);
        c = (xm + r > titleBox_left e \<and> xm - r < titleBox_left e + titleBox_width e \<and>
             ym + r > titleBox_top e \<and> ym - r < titleBox_top e + titleBox_height e);
        nearLeft = (xm + r < titleBox_left e + 10);
        nearRight = (xm - r > titleBox_left e + titleBox_width e - 10);
        nearTop = (ym + r < titleBox_top e + 10);
        nearBottom = (ym - r > titleBox_top e + titleBox_height e - 10)
    in update e p =
         p\<lparr>px := xm, py := ym,
           directionX := (if c \<and> (nearLeft \<or> nearRight) then - wx else wx),
           directionY := (if c \<and> \<not> nearLeft \<and> \<not> nearRight \<and> (nearTop \<or> nearBottom)
                          then - wy else wy),
           collision := c\<rparr>) \<and>
   px (update e p) = px p + directionX p \<and> py (update e p) = py p + directionY p \<and>
   px (ticks e 2 p) = px p + directionX p + directionX (update e p) \<and>
   py (ticks e 2 p) = py p + directionY p + directionY (update e p)"
proof -
  define q where "q = wallBounceY e (wallBounceX e (move p))"
  have u: "update e p = obstacleBounce e (detectCollision e q)"
    by (simp only: update_def q_def)
  have f: "px q = px p + directionX p" "py q = py p + directionY p" "radius q = radius p"
    by (simp_all only: q_def phase_fields)
  have "update e p =
     q\<lparr>directionX :=
         (if overlapsTitle e (px q) (py q) (radius q) \<and>
             (px q + radius q < titleBox_left e + 10 \<or>
              px q - radius q > titleBox_left e + titleBox_width e - 10)
          then - directionX q else directionX q),
       directionY :=
         (if overlapsTitle e (px q) (py q) (radius q) \<and>
             \<not> px q + radius q < titleBox_left e + 10 \<and>
             \<not> px q - radius q > titleBox_left e + titleBox_width e - 10 \<and>
             (py q + radius q < titleBox_top e + 10 \<or>
              py q - radius q > titleBox_top e + titleBox_height e - 10)
          then - directionY q else directionY q),
       collision := overlapsTitle e (px q) (py q) (radius q)\<rparr>"
    unfolding u by (rule obstacleBounce_closed)
  then have 1: "let xm = px p + directionX p;
        ym = py p + directionY p;
        r = radius p;
        wx = (if xm + r + directionX p \<ge> canvas_width e \<or> xm - r + directionX p \<le> 0
              then - directionX p else directionX p);
        wy = (if ym + r + directionY p \<ge> canvas_height e \<or> ym - r + directionY p \<le> 0
              then - directionY p else directionY p);
        c = (xm + r > titleBox_left e \<and> xm - r < titleBox_left e + titleBox_width e \<and>
             ym + r > titleBox_top e \<and> ym - r < titleBox_top e + titleBox_height e);
        nearLeft = (xm + r < titleBox_left e + 10);
        nearRight = (xm - r > titleBox_left e + titleBox_width e - 10);
        nearTop = (ym + r < titleBox_top e + 10);
        nearBottom = (ym - r > titleBox_top e + titleBox_height e - 10)
    in update e p =
         p\<lparr>px := xm, py := ym,
           directionX := (if c \<and> (nearLeft \<or> nearRight) then - wx else wx),
           directionY := (if c \<and> \<not> nearLeft \<and> \<not> nearRight \<and> (nearTop \<or> nearBottom)
                          then - wy else wy),
           collision := c\<rparr>"
    unfolding f overlapsTitle_def unfolding q_def walls_after_move
    by (simp add: Let_def cong del: if_weak_cong)
  have 2: "px (update e p) = px p + directionX p \<and> py (update e p) = py p + directionY p \<and>
   px (ticks e 2 p) = px p + directionX p + directionX (update e p) \<and>
   py (ticks e 2 p) = py p + directionY p + directionY (update e p)"
    by (simp only: px_update py_update numeral_2_eq_2 ticks.simps simp_thms)
  from 1 2 show ?thesis by (rule conjI)
qed

section \<open>The second end-to-end scenario\<close>

text \<open>
  Claim C2, as stated: the particle at \<open>(5, 5)\<close> with radius \<open>2\<close> and velocity
  \<open>(-1, -1)\<close> on a canvas of \<open>100 x 100\<close> has velocity \<open>(1, 1)\<close> and position \<open>(6, 6)\<close>
  after one call. It does not: the call moves it to \<open>(4, 4)\<close>.
\<close>

theorem scenario2_counterexample:
  "\<not> (directionX (update scenario2_env scenario2_particle) = 1 \<and>
      directionY (update scenario2_env scenario2_particle) = 1 \<and>
      px (update scenario2_env scenario2_particle) = 6 \<and>
      py (update scenario2_env scenario2_particle) = 6)"
  by (simp add: px_update scenario2_particle_def)

text \<open>
  Claim C2, amended. On a canvas of \<open>100 x 100\<close>, with a title box that the particle at
  \<open>(4, 4)\<close> does not touch, one call moves the particle from \<open>(5, 5)\<close> to \<open>(4, 4)\<close> and
  leaves the velocity \<open>(-1, -1)\<close>: at \<open>(4, 4)\<close> neither edge test fires, since
  \<open>4 - 2 - 1 = 1 > 0\<close>.
\<close>

theorem scenario2_first_tick:
  assumes "canvas_width e = 100" and "canvas_height e = 100"
    and "\<not> overlapsTitle e 4 4 2"
  shows "update e scenario2_particle = scenario2_particle\<lparr>px := 4, py := 4\<rparr>"
  using assms by (simp add: update_def phase_defs scenario2_particle_def)

theorem scenario2_first_tick_witness:
  "canvas_width scenario2_env = 100 \<and> canvas_height scenario2_env = 100 \<and>
   \<not> overlapsTitle scenario2_env 4 4 2 \<and>
   update scenario2_env scenario2_particle = scenario2_particle\<lparr>px := 4, py := 4\<rparr>"
proof -
  have w: "canvas_width scenario2_env = 100" and h: "canvas_height scenario2_env = 100"
    by (simp_all add: scenario2_env_def)
  have o: "\<not> overlapsTitle scenario2_env 4 4 2"
    by (simp add: scenario2_env_def overlapsTitle_def)
  from scenario2_first_tick [OF w h o] w h o show ?thesis by (intro conjI)
qed

text \<open>The velocity \<open>(1, 1)\<close> of the scenario is reached by the second call, at \<open>(3, 3)\<close>.\<close>

lemma scenario2_second_tick:
  "ticks scenario2_env 2 scenario2_particle =
     scenario2_particle\<lparr>px := 3, py := 3, directionX := 1, directionY := 1\<rparr>"
  by (simp add: numeral_2_eq_2 update_def phase_defs overlapsTitle_def scenario2_particle_def
      scenario2_env_def)

section \<open>The bounded domain\<close>

text \<open>
  Claim C3, as stated: from any position inside the canvas, no particle ever leaves
  \<open>[-r, width + r]\<close>. It fails where the title box reaches the edge of the canvas: near
  the right edge of the box the obstacle bounce negates the horizontal velocity that the
  wall bounce has just negated, and the particle goes on. The particle below is one that
  \<open>init\<close> can create (radius \<open>2\<close>, velocity \<open>(1.5, 0)\<close>); the title box spans the width
  of the canvas. After two calls it is at \<open>x = 102.5\<close>.
\<close>

theorem bounded_domain_counterexample:
  "radius edge_particle = 2 \<and> \<bar>directionX edge_particle\<bar> \<le> 2 \<and> \<bar>directionY edge_particle\<bar> \<le> 2 \<and>
   0 \<le> px edge_particle \<and> px edge_particle \<le> canvas_width wide_title_env \<and>
   0 \<le> py edge_particle \<and> py edge_particle \<le> canvas_height wide_title_env \<and>
   \<not> px (ticks wide_title_env 2 edge_particle) \<le> canvas_width wide_title_env + radius edge_particle"
  by (simp add: numeral_2_eq_2 update_def phase_defs overlapsTitle_def edge_particle_def
      new_Particle_def wide_title_env_def)

lemma edge_particle_escapes: "px (ticks wide_title_env 2 edge_particle) = 102.5"
  by (simp add: numeral_2_eq_2 update_def phase_defs overlapsTitle_def edge_particle_def
      new_Particle_def wide_title_env_def)

text \<open>
  A particle faster than its radius leaves the range too, with no title box near; the
  constructor does not make such a particle when the radius is \<open>2\<close>.
\<close>

lemma fast_particle_escapes:
  "px (update scenario2_env (scenario2_particle\<lparr>px := 99, py := 20, directionX := 50\<rparr>)) = 149"
  by (simp add: px_update scenario2_particle_def)

text \<open>The invariant of one axis, through the wall test and through the whole call.\<close>

lemma in_bounce_range_inside: "0 \<le> x \<Longrightarrow> x \<le> w \<Longrightarrow> in_bounce_range w x d"
  by (simp add: in_bounce_range_def)

lemma in_bounce_range_bounds:
  "in_bounce_range w x d \<Longrightarrow> \<bar>d\<bar> \<le> r \<Longrightarrow> - r \<le> x \<and> x \<le> w + r"
  by (auto simp: in_bounce_range_def split: if_splits)

lemma in_bounce_range_wall:
  assumes "0 \<le> r" "in_bounce_range w x d"
  shows "in_bounce_range w (x + d) (if x + d + r + d \<ge> w \<or> x + d - r + d \<le> 0 then - d else d)"
  using assms by (auto simp: in_bounce_range_def split: if_splits)

lemma overlaps_inside:
  "titleInside e r \<Longrightarrow> overlapsTitle e x y r \<Longrightarrow>
     0 \<le> x \<and> x \<le> canvas_width e \<and> 0 \<le> y \<and> y \<le> canvas_height e"
  by (auto simp: titleInside_def overlapsTitle_def)

lemma in_bounce_range_update_x:
  assumes "0 \<le> radius p" "titleInside e (radius p)"
    "in_bounce_range (canvas_width e) (px p) (directionX p)"
  shows "in_bounce_range (canvas_width e) (px (update e p)) (directionX (update e p))"
proof -
  have w: "in_bounce_range (canvas_width e) (px p + directionX p)
      (directionX (wallBounceX e (move p)))"
    unfolding directionX_wall using assms(1,3) by (rule in_bounce_range_wall)
  from directionX_update_cases [of e p] show ?thesis
  proof
    assume "directionX (update e p) = directionX (wallBounceX e (move p))"
    with w show ?thesis by (simp add: px_update)
  next
    assume "directionX (update e p) = - directionX (wallBounceX e (move p)) \<and>
      overlapsTitle e (px p + directionX p) (py p + directionY p) (radius p)"
    then have "0 \<le> px p + directionX p \<and> px p + directionX p \<le> canvas_width e"
      using overlaps_inside [OF assms(2)] by blast
    then show ?thesis by (simp add: px_update in_bounce_range_inside)
  qed
qed

lemma in_bounce_range_update_y:
  assumes "0 \<le> radius p" "titleInside e (radius p)"
    "in_bounce_range (canvas_height e) (py p) (directionY p)"
  shows "in_bounce_range (canvas_height e) (py (update e p)) (directionY (update e p))"
proof -
  have w: "in_bounce_range (canvas_height e) (py p + directionY p)
      (directionY (wallBounceY e (move p)))"
    unfolding directionY_wall using assms(1,3) by (rule in_bounce_range_wall)
  from directionY_update_cases [of e p] show ?thesis
  proof
    assume "directionY (update e p) = directionY (wallBounceY e (move p))"
    with w show ?thesis by (simp add: py_update)
  next
    assume "directionY (update e p) = - directionY (wallBounceY e (move p)) \<and>
      overlapsTitle e (px p + directionX p) (py p + directionY p) (radius p)"
    then have "0 \<le> py p + directionY p \<and> py p + directionY p \<le> canvas_height e"
      using overlaps_inside [OF assms(2)] by blast
    then show ?thesis by (simp add: py_update in_bounce_range_inside)
  qed
qed

lemma ticks_invariant:
  assumes "titleInside e r"
  shows "radius p = r \<Longrightarrow> 0 \<le> r \<Longrightarrow> \<bar>directionX p\<bar> \<le> r \<Longrightarrow> \<bar>directionY p\<bar> \<le> r \<Longrightarrow>
    in_bounce_range (canvas_width e) (px p) (directionX p) \<Longrightarrow>
    in_bounce_range (canvas_height e) (py p) (directionY p) \<Longrightarrow>
    radius (ticks e n p) = r \<and> \<bar>directionX (ticks e n p)\<bar> \<le> r \<and> \<bar>directionY (ticks e n p)\<bar> \<le> r \<and>
    in_bounce_range (canvas_width e) (px (ticks e n p)) (directionX (ticks e n p)) \<and>
    in_bounce_range (canvas_height e) (py (ticks e n p)) (directionY (ticks e n p))"
proof (induction n arbitrary: p)
  case 0
  then show ?case by simp
next
  case (Suc n)
  have "radius (update e p) = r" using Suc.prems by (simp add: radius_update)
  moreover have "\<bar>directionX (update e p)\<bar> \<le> r" "\<bar>directionY (update e p)\<bar> \<le> r"
    using Suc.prems by (simp_all only: abs_directionX_update abs_directionY_update)
  moreover have "in_bounce_range (canvas_width e) (px (update e p)) (directionX (update e p))"
    using Suc.prems assms by (intro in_bounce_range_update_x) simp_all
  moreover have "in_bounce_range (canvas_height e) (py (update e p)) (directionY (update e p))"
    using Suc.prems assms by (intro in_bounce_range_update_y) simp_all
  ultimately show ?case using Suc.IH [of "update e p"] Suc.prems(2) by simp
qed

text \<open>
  Claim C3, amended. For a particle of radius \<open>r\<close> whose velocity components are at most
  \<open>r\<close> in absolute value (as those the constructor draws are for \<open>r = 2\<close>), starting
  inside the canvas, and a title box that, inflated by \<open>r\<close>, lies inside the canvas:
  after any number of calls of \<open>update\<close> the coordinate \<open>x\<close> is in \<open>[-r, width + r]\<close>
  and \<open>y\<close> is in \<open>[-r, height + r]\<close>.
\<close>

theorem bounded_domain:
  assumes "titleInside e (radius p)"
    and "\<bar>directionX p\<bar> \<le> radius p" and "\<bar>directionY p\<bar> \<le> radius p"
    and "0 \<le> px p" and "px p \<le> canvas_width e"
    and "0 \<le> py p" and "py p \<le> canvas_height e"
  shows "- radius p \<le> px (ticks e n p) \<and> px (ticks e n p) \<le> canvas_width e + radius p \<and>
         - radius p \<le> py (ticks e n p) \<and> py (ticks e n p) \<le> canvas_height e + radius p"
proof -
  have r: "0 \<le> radius p" using assms(2) by linarith
  have "radius (ticks e n p) = radius p \<and> \<bar>directionX (ticks e n p)\<bar> \<le> radius p \<and>
    \<bar>directionY (ticks e n p)\<bar> \<le> radius p \<and>
    in_bounce_range (canvas_width e) (px (ticks e n p)) (directionX (ticks e n p)) \<and>
    in_bounce_range (canvas_height e) (py (ticks e n p)) (directionY (ticks e n p))"
    using assms r by (intro ticks_invariant) (simp_all add: in_bounce_range_inside)
  then show ?thesis using in_bounce_range_bounds by blast
qed

theorem bounded_domain_witness:
  "titleInside scenario2_env (radius scenario2_particle) \<and>
   \<bar>directionX scenario2_particle\<bar> \<le> radius scenario2_particle \<and>
   \<bar>directionY scenario2_particle\<bar> \<le> radius scenario2_particle \<and>
   0 \<le> px scenario2_particle \<and> px scenario2_particle \<le> canvas_width scenario2_env \<and>
   0 \<le> py scenario2_particle \<and> py scenario2_particle \<le> canvas_height scenario2_env \<and>
   - radius scenario2_particle \<le> px (ticks scenario2_env 7 scenario2_particle) \<and>
   px (ticks scenario2_env 7 scenario2_particle) \<le> canvas_width scenario2_env + radius scenario2_particle \<and>
   - radius scenario2_particle \<le> py (ticks scenario2_env 7 scenario2_particle) \<and>
   py (ticks scenario2_env 7 scenario2_particle) \<le> canvas_height scenario2_env + radius scenario2_particle"
proof -
  have t: "titleInside scenario2_env (radius scenario2_particle)"
    by (simp add: titleInside_def scenario2_env_def scenario2_particle_def)
  have dx: "\<bar>directionX scenario2_particle\<bar> \<le> radius scenario2_particle"
    and dy: "\<bar>directionY scenario2_particle\<bar> \<le> radius scenario2_particle"
    by (simp_all add: scenario2_particle_def)
  have x0: "0 \<le> px scenario2_particle" and x1: "px scenario2_particle \<le> canvas_width scenario2_env"
    and y0: "0 \<le> py scenario2_particle" and y1: "py scenario2_particle \<le> canvas_height scenario2_env"
    by (simp_all add: scenario2_env_def scenario2_particle_def)
  from bounded_domain [OF t dx dy x0 x1 y0 y1, of 7] t dx dy x0 x1 y0 y1
  show ?thesis by (intro conjI) simp_all
qed

section \<open>The obstacle bounce\<close>

lemma obstacleBounce_left:
  "collision p \<Longrightarrow> px p + radius p < titleBox_left e + 10 \<Longrightarrow>
     obstacleBounce e p = p\<lparr>directionX := - directionX p\<rparr>"
  by (simp add: obstacleBounce_def)

lemma obstacleBounce_right:
  "collision p \<Longrightarrow> \<not> px p + radius p < titleBox_left e + 10 \<Longrightarrow>
     px p - radius p > titleBox_left e + titleBox_width e - 10 \<Longrightarrow>
     obstacleBounce e p = p\<lparr>directionX := - directionX p\<rparr>"
  by (simp add: obstacleBounce_def)

lemma obstacleBounce_top:
  "collision p \<Longrightarrow> \<not> px p + radius p < titleBox_left e + 10 \<Longrightarrow>
     \<not> px p - radius p > titleBox_left e + titleBox_width e - 10 \<Longrightarrow>
     py p + radius p < titleBox_top e + 10 \<Longrightarrow>
     obstacleBounce e p = p\<lparr>directionY := - directionY p\<rparr>"
  by (simp add: obstacleBounce_def)

lemma obstacleBounce_bottom:
  "collision p \<Longrightarrow> \<not> px p + radius p < titleBox_left e + 10 \<Longrightarrow>
     \<not> px p - radius p > titleBox_left e + titleBox_width e - 10 \<Longrightarrow>
     \<not> py p + radius p < titleBox_top e + 10 \<Longrightarrow>
     py p - radius p > titleBox_top e + titleBox_height e - 10 \<Longrightarrow>
     obstacleBounce e p = p\<lparr>directionY := - directionY p\<rparr>"
  by (simp add: obstacleBounce_def)

lemma obstacleBounce_none:
  "\<not> collision p \<or>
   (\<not> px p + radius p < titleBox_left e + 10 \<and>
    \<not> px p - radius p > titleBox_left e + titleBox_width e - 10 \<and>
    \<not> py p + radius p < titleBox_top e + 10 \<and>
    \<not> py p - radius p > titleBox_top e + titleBox_height e - 10) \<Longrightarrow>
     obstacleBounce e p = p"
  by (auto simp: obstacleBounce_def)

text \<open>
  Claim C6. Let \<open>q\<close> be the particle of a call of \<open>update\<close> after the move and the wall
  tests. When \<open>q\<close> overlaps the title box and is within the margin of \<open>10\<close> of an edge
  of the box, the velocity component across that edge is negated. The edges are tried
  in the order left, right, top, bottom and only the first that matches fires: the
  other component stays as it is, and nothing changes when the particle does not
  overlap the box or is near no edge.
\<close>

theorem obstacle_bounce_order:
  assumes q: "q = wallBounceY e (wallBounceX e (move p))"
    and c: "colliding = overlapsTitle e (px q) (py q) (radius q)"
    and l: "nearLeft = (px q + radius q < titleBox_left e + 10)"
    and r: "nearRight = (px q - radius q > titleBox_left e + titleBox_width e - 10)"
    and t: "nearTop = (py q + radius q < titleBox_top e + 10)"
    and b: "nearBottom = (py q - radius q > titleBox_top e + titleBox_height e - 10)"
  shows "px q = px p + directionX p \<and> py q = py p + directionY p \<and> radius q = radius p \<and>
    (colliding \<and> nearLeft \<longrightarrow>
       directionX (update e p) = - directionX q \<and> directionY (update e p) = directionY q) \<and>
    (colliding \<and> \<not> nearLeft \<and> nearRight \<longrightarrow>
       directionX (update e p) = - directionX q \<and> directionY (update e p) = directionY q) \<and>
    (colliding \<and> \<not> nearLeft \<and> \<not> nearRight \<and> nearTop \<longrightarrow>
       directionX (update e p) = directionX q \<and> directionY (update e p) = - directionY q) \<and>
    (colliding \<and> \<not> nearLeft \<and> \<not> nearRight \<and> \<not> nearTop \<and> nearBottom \<longrightarrow>
       directionX (update e p) = directionX q \<and> directionY (update e p) = - directionY q) \<and>
    (\<not> colliding \<or> (\<not> nearLeft \<and> \<not> nearRight \<and> \<not> nearTop \<and> \<not> nearBottom) \<longrightarrow>
       directionX (update e p) = directionX q \<and> directionY (update e p) = directionY q)"
proof -
  define q' where "q' = detectCollision e q"
  have u: "update e p = obstacleBounce e q'"
    by (simp only: update_def q q'_def)
  have f: "px q' = px q" "py q' = py q" "radius q' = radius q" "directionX q' = directionX q"
    "directionY q' = directionY q" "collision q' = colliding"
    by (simp_all only: q'_def detectCollision_fields c)
  have pos: "px q = px p + directionX p \<and> py q = py p + directionY p \<and> radius q = radius p"
    by (simp only: q phase_fields simp_thms)
  have 1: "colliding \<and> nearLeft \<longrightarrow>
       directionX (update e p) = - directionX q \<and> directionY (update e p) = directionY q"
    using obstacleBounce_left [of q' e] by (simp add: u f l)
  have 2: "colliding \<and> \<not> nearLeft \<and> nearRight \<longrightarrow>
       directionX (update e p) = - directionX q \<and> directionY (update e p) = directionY q"
    using obstacleBounce_right [of q' e] by (simp add: u f l r)
  have 3: "colliding \<and> \<not> nearLeft \<and> \<not> nearRight \<and> nearTop \<longrightarrow>
       directionX (update e p) = directionX q \<and> directionY (update e p) = - directionY q"
    using obstacleBounce_top [of q' e] by (simp add: u f l r t)
  have 4: "colliding \<and> \<not> nearLeft \<and> \<not> nearRight \<and> \<not> nearTop \<and> nearBottom \<longrightarrow>
       directionX (update e p) = directionX q \<and> directionY (update e p) = - directionY q"
    using obstacleBounce_bottom [of q' e] by (simp add: u f l r t b)
  have 5: "\<not> colliding \<or> (\<not> nearLeft \<and> \<not> nearRight \<and> \<not> nearTop \<and> \<not> nearBottom) \<longrightarrow>
       directionX (update e p) = directionX q \<and> directionY (update e p) = directionY q"
    using obstacleBounce_none [of q' e] by (auto simp: u f l r t b)
  from pos 1 2 3 4 5 show ?thesis by blast
qed

text \<open>
  A particle that enters the corner of the title box is near its left edge and near its
  top edge: only the horizontal velocity is negated.
\<close>

theorem obstacle_bounce_order_witness:
  "overlapsTitle scenario2_env 41 41 2 \<and> 41 + 2 < titleBox_left scenario2_env + (10::real) \<and>
   41 + 2 < titleBox_top scenario2_env + (10::real) \<and>
   directionX (update scenario2_env corner_particle) = - 1 \<and>
   directionY (update scenario2_env corner_particle) = 1"
proof -
  define q where "q = wallBounceY scenario2_env (wallBounceX scenario2_env (move corner_particle))"
  have q: "px q = 41" "py q = 41" "radius q = 2" "directionX q = 1" "directionY q = 1"
    by (simp_all add: q_def phase_defs corner_particle_def scenario2_env_def)
  have o: "overlapsTitle scenario2_env 41 41 2"
    by (simp add: overlapsTitle_def scenario2_env_def)
  have l: "41 + 2 < titleBox_left scenario2_env + (10::real)"
    and t: "41 + 2 < titleBox_top scenario2_env + (10::real)"
    by (simp_all add: scenario2_env_def)
  from obstacle_bounce_order [OF q_def refl refl refl refl refl] o l
  have "directionX (update scenario2_env corner_particle) = - directionX q \<and>
    directionY (update scenario2_env corner_particle) = directionY q"
    by (simp add: q)
  with o l t show ?thesis by (simp add: q)
qed

section \<open>The connector lines of a frame\<close>

lemma innerLoop_eq:
  "innerLoop ps i j = concat (map (\<lambda>k. connect (ps ! i) (ps ! k)) [j..<length ps])"
proof (induction ps i j rule: innerLoop.induct)
  case (1 ps i j)
  show ?case
  proof (cases "j < length ps")
    case True
    then show ?thesis
      using "1" by (subst innerLoop.simps) (simp add: upt_conv_Cons)
  next
    case False
    then show ?thesis by (subst innerLoop.simps) simp
  qed
qed

lemma innerLoop_updated:
  assumes "i < length ps"
  shows "innerLoop (ps[i := u]) i i =
     concat (map (\<lambda>j. connect u (if j = i then u else ps ! j)) [i..<length ps])"
proof -
  have "map (\<lambda>k. connect (ps[i := u] ! i) (ps[i := u] ! k)) [i..<length ps] =
        map (\<lambda>j. connect u (if j = i then u else ps ! j)) [i..<length ps]"
    using assms by (intro map_cong) (auto simp: nth_list_update)
  then show ?thesis by (simp only: innerLoop_eq length_list_update)
qed

text \<open>Updating particle \<open>i\<close> does not change what the later rounds issue.\<close>

lemma frames_update_irrelevant:
  "map (frame_of e (ps[i := u])) [Suc i..<length ps] = map (frame_of e ps) [Suc i..<length ps]"
proof (rule map_cong [OF refl])
  fix k assume k: "k \<in> set [Suc i..<length ps]"
  then have ki: "i < k" by simp
  have "map (\<lambda>j. connect (update e (ps ! k)) (if j = k then update e (ps ! k) else ps[i := u] ! j))
          [k..<length ps] =
        map (\<lambda>j. connect (update e (ps ! k)) (if j = k then update e (ps ! k) else ps ! j))
          [k..<length ps]"
    using ki by (intro map_cong) (auto simp: nth_list_update)
  moreover have "ps[i := u] ! k = ps ! k"
    using ki by simp
  ultimately show "frame_of e (ps[i := u]) k = frame_of e ps k"
    by (simp only: frame_of_def length_list_update)
qed

lemma outerLoop_eq:
  "i \<le> length ps \<Longrightarrow>
   outerLoop e i ps =
     (concat (map (frame_of e ps) [i..<length ps]), take i ps @ map (update e) (drop i ps))"
proof (induction e i ps rule: outerLoop.induct)
  case (1 e i ps)
  show ?case
  proof (cases "i < length ps")
    case True
    define ps' where "ps' = ps[i := update e (ps ! i)]"
    have IH: "outerLoop e (Suc i) ps' =
        (concat (map (frame_of e ps') [Suc i..<length ps']),
         take (Suc i) ps' @ map (update e) (drop (Suc i) ps'))"
      using True "1.IH" [of "draw (ps ! i)" ps'] by (simp add: ps'_def)
    have fr: "map (frame_of e ps') [Suc i..<length ps'] = map (frame_of e ps) [Suc i..<length ps]"
      using frames_update_irrelevant [of e ps i "update e (ps ! i)"] by (simp add: ps'_def)
    have tk: "take (Suc i) ps' @ map (update e) (drop (Suc i) ps') =
        take i ps @ map (update e) (drop i ps)"
      using True
      by (simp add: ps'_def take_Suc_conv_app_nth Cons_nth_drop_Suc [symmetric])
    have inner: "draw (ps ! i) # innerLoop ps' i i = frame_of e ps i"
      using True by (simp add: ps'_def innerLoop_updated frame_of_def)
    have "outerLoop e i ps =
        (draw (ps ! i) # innerLoop ps' i i @ concat (map (frame_of e ps) [Suc i..<length ps]),
         take i ps @ map (update e) (drop i ps))"
      using True by (subst outerLoop.simps) (simp add: Let_def ps'_def [symmetric] IH fr tk)
    also have "draw (ps ! i) # innerLoop ps' i i @ concat (map (frame_of e ps) [Suc i..<length ps])
        = concat (map (frame_of e ps) [i..<length ps])"
      using True inner by (simp add: upt_conv_Cons)
    finally show ?thesis .
  next
    case False
    with "1.prems" show ?thesis by (subst outerLoop.simps) simp
  qed
qed

text \<open>A frame: the commands in order, and every particle updated once.\<close>

lemma animate_eq:
  "animate e ps =
     (ClearRect 0 0 (canvas_width e) (canvas_height e) #
        concat (map (frame_of e ps) [0..<length ps]),
      map (update e) ps)"
  by (simp add: animate_def outerLoop_eq)

lemma distance_ge_0: "0 \<le> distance p q"
  by (simp add: distance_def)

lemma distance_self: "distance p p = 0"
  by (simp add: distance_def)

lemma connect_distance:
  "connect p q =
     (if distance p q < 250
      then [StrokeLine (px p) (py p) (px q) (py q) (1 - distance p q / 250)] else [])"
  by (simp add: connect_def distance_def Let_def)

lemma self_line_in_frame:
  assumes "i < length ps"
  shows "StrokeLine (px (update e (ps ! i))) (py (update e (ps ! i)))
           (px (update e (ps ! i))) (py (update e (ps ! i))) 1 \<in> set (fst (animate e ps))"
proof -
  have "StrokeLine (px (update e (ps ! i))) (py (update e (ps ! i)))
           (px (update e (ps ! i))) (py (update e (ps ! i))) 1 \<in> set (frame_of e ps i)"
    using assms by (simp add: frame_of_def upt_conv_Cons connect_distance distance_self)
  moreover have "frame_of e ps i \<in> set (map (frame_of e ps) [0..<length ps])"
    using assms by simp
  ultimately have "StrokeLine (px (update e (ps ! i))) (py (update e (ps ! i)))
           (px (update e (ps ! i))) (py (update e (ps ! i))) 1
      \<in> set (concat (map (frame_of e ps) [0..<length ps]))"
    unfolding set_concat by blast
  then show ?thesis by (simp add: animate_eq)
qed

text \<open>
  Claim C5. The commands of a frame are \<open>clearRect\<close> and then, for every \<open>i\<close> in order,
  the circle of particle \<open>i\<close> and the output of the loop body for the pairs \<open>(i, j)\<close>
  with \<open>i \<le> j\<close>, the pair \<open>(i, i)\<close> included; particle \<open>i\<close> is the updated one, a
  particle \<open>j > i\<close> is as it was at the start of the frame. For two particles at
  distance \<open>d\<close> the loop body draws one line of opacity \<open>1 - d / 250\<close>, which is in
  \<open>(0, 1]\<close>, when \<open>d < 250\<close>, and nothing when \<open>d \<ge> 250\<close>. The self-pair has distance
  \<open>0\<close>: its line, of opacity \<open>1\<close>, is among the commands of the frame.
\<close>

theorem connector_lines:
  "fst (animate e ps) =
     ClearRect 0 0 (canvas_width e) (canvas_height e) #
     concat (map (\<lambda>i. draw (ps ! i) #
        concat (map (\<lambda>j. connect (update e (ps ! i)) (if j = i then update e (ps ! i) else ps ! j))
                  [i..<length ps])) [0..<length ps]) \<and>
   (distance p q < 250 \<longrightarrow>
      connect p q = [StrokeLine (px p) (py p) (px q) (py q) (1 - distance p q / 250)] \<and>
      0 < 1 - distance p q / 250 \<and> 1 - distance p q / 250 \<le> 1) \<and>
   (250 \<le> distance p q \<longrightarrow> connect p q = []) \<and>
   connect p p = [StrokeLine (px p) (py p) (px p) (py p) 1] \<and>
   (i < length ps \<longrightarrow>
      StrokeLine (px (update e (ps ! i))) (py (update e (ps ! i)))
        (px (update e (ps ! i))) (py (update e (ps ! i))) 1 \<in> set (fst (animate e ps)))"
proof -
  have "frame_of e ps = (\<lambda>i. draw (ps ! i) #
        concat (map (\<lambda>j. connect (update e (ps ! i)) (if j = i then update e (ps ! i) else ps ! j))
                  [i..<length ps]))"
    by (rule ext) (simp add: frame_of_def)
  then have a: "fst (animate e ps) =
     ClearRect 0 0 (canvas_width e) (canvas_height e) #
     concat (map (\<lambda>i. draw (ps ! i) #
        concat (map (\<lambda>j. connect (update e (ps ! i)) (if j = i then update e (ps ! i) else ps ! j))
                  [i..<length ps])) [0..<length ps])"
    by (simp add: animate_eq)
  have b: "distance p q < 250 \<longrightarrow>
      connect p q = [StrokeLine (px p) (py p) (px q) (py q) (1 - distance p q / 250)] \<and>
      0 < 1 - distance p q / 250 \<and> 1 - distance p q / 250 \<le> 1"
    using distance_ge_0 [of p q] by (simp add: connect_distance)
  have c: "250 \<le> distance p q \<longrightarrow> connect p q = []"
    by (simp add: connect_distance)
  have d: "connect p p = [StrokeLine (px p) (py p) (px p) (py p) 1]"
    by (simp add: connect_distance distance_self)
  have s: "i < length ps \<longrightarrow>
      StrokeLine (px (update e (ps ! i))) (py (update e (ps ! i)))
        (px (update e (ps ! i))) (py (update e (ps ! i))) 1 \<in> set (fst (animate e ps))"
    using self_line_in_frame by blast
  from a b c d s show ?thesis by blast
qed

text \<open>
  Two particles at distance \<open>5\<close> are joined by a line of opacity \<open>1 - 5 / 250\<close>, two at
  distance \<open>500\<close> by none, and a frame of one particle holds its self-line.
\<close>

theorem connector_lines_witness:
  "distance (particle_at 0 0) (particle_at 3 4) < 250 \<and>
   connect (particle_at 0 0) (particle_at 3 4) = [StrokeLine 0 0 3 4 (1 - 5 / 250)] \<and>
   250 \<le> distance (particle_at 0 0) (particle_at 300 400) \<and>
   connect (particle_at 0 0) (particle_at 300 400) = [] \<and>
   0 < length [particle_at 7 9] \<and>
   StrokeLine 7 9 7 9 1 \<in> set (fst (animate scenario2_env [particle_at 7 9]))"
proof -
  have "sqrt 25 = 5" by (simp add: real_sqrt_unique)
  then have near: "distance (particle_at 0 0) (particle_at 3 4) = 5"
    by (simp add: distance_def particle_at_def)
  have "sqrt 250000 = 500" by (simp add: real_sqrt_unique)
  then have far: "distance (particle_at 0 0) (particle_at 300 400) = 500"
    by (simp add: distance_def particle_at_def)
  have u: "px (update scenario2_env (particle_at 7 9)) = 7"
    "py (update scenario2_env (particle_at 7 9)) = 9"
    by (simp_all add: px_update py_update particle_at_def)
  have 1: "connect (particle_at 0 0) (particle_at 3 4) = [StrokeLine 0 0 3 4 (1 - 5 / 250)]"
    using connector_lines [of scenario2_env "[]" "particle_at 0 0" "particle_at 3 4" 0] near
    by (simp add: particle_at_def)
  have 2: "connect (particle_at 0 0) (particle_at 300 400) = []"
    using connector_lines [of scenario2_env "[]" "particle_at 0 0" "particle_at 300 400" 0] far
    by simp
  have 3: "StrokeLine 7 9 7 9 1 \<in> set (fst (animate scenario2_env [particle_at 7 9]))"
    using connector_lines [of scenario2_env "[particle_at 7 9]" "particle_at 0 0" "particle_at 0 0" 0,
        THEN conjunct2, THEN conjunct2, THEN conjunct2, THEN conjunct2]
    by (simp add: u)
  from 1 2 3 near far show ?thesis by simp
qed

section \<open>Rounding to a double\<close>

text \<open>
  The nearest integer is within a half, and is the only integer strictly within a half;
  the exponent that \<open>to_double\<close> takes is the one of the binade of its argument. So
  \<open>to_double\<close> keeps the sign, has a relative error of at most \<open>2 ^ -53\<close>, and can be
  evaluated at a number whose binade and nearest multiple of the quantum are given.
\<close>

lemma round_even_error: "\<bar>of_int (round_even y) - y\<bar> \<le> 1 / 2"
  unfolding round_even_def Let_def by (auto simp: abs_if) linarith+

lemma round_even_unique: "\<bar>y - of_int n\<bar> < 1 / 2 \<Longrightarrow> round_even y = n"
proof -
  assume a: "\<bar>y - of_int n\<bar> < 1 / 2"
  have "\<lfloor>y\<rfloor> = n \<or> \<lfloor>y\<rfloor> = n - 1" using a by (auto simp: abs_if split: if_splits) linarith+
  then show ?thesis
  proof
    assume f: "\<lfloor>y\<rfloor> = n"
    then have "y - of_int n < 1 / 2" using a by linarith
    then show ?thesis by (simp add: round_even_def f)
  next
    assume f: "\<lfloor>y\<rfloor> = n - 1"
    then have "1 / 2 < y - of_int (n - 1)" using a by (simp add: abs_if split: if_splits)
    then show ?thesis by (simp add: round_even_def f)
  qed
qed

lemma round_even_nonneg: "0 \<le> y \<Longrightarrow> 0 \<le> round_even y"
  unfolding round_even_def Let_def by (auto simp: abs_if)

lemma exponent_bounds:
  assumes "x \<noteq> 0"
  shows "2 powi \<lfloor>log 2 \<bar>x\<bar>\<rfloor> \<le> \<bar>x\<bar>" and "\<bar>x\<bar> < 2 powi (\<lfloor>log 2 \<bar>x\<bar>\<rfloor> + 1)"
proof -
  have p: "0 < \<bar>x\<bar>" using assms by simp
  have "2 powr (of_int \<lfloor>log 2 \<bar>x\<bar>\<rfloor>) \<le> \<bar>x\<bar>"
    by (subst le_log_iff [symmetric]) (use p in simp_all)
  then show "2 powi \<lfloor>log 2 \<bar>x\<bar>\<rfloor> \<le> \<bar>x\<bar>" by (simp add: powr_real_of_int')
  have "log 2 \<bar>x\<bar> < of_int (\<lfloor>log 2 \<bar>x\<bar>\<rfloor> + 1)" by linarith
  then have "\<bar>x\<bar> < 2 powr (of_int (\<lfloor>log 2 \<bar>x\<bar>\<rfloor> + 1))"
    using p by (simp only: log_less_iff [of 2, simplified])
  then show "\<bar>x\<bar> < 2 powi (\<lfloor>log 2 \<bar>x\<bar>\<rfloor> + 1)" by (simp only: powr_real_of_int' [of 2, simplified])
qed

lemma exponent_unique:
  assumes "2 powi e \<le> \<bar>x\<bar>" and "\<bar>x\<bar> < 2 powi (e + 1)"
  shows "\<lfloor>log 2 \<bar>x\<bar>\<rfloor> = e"
proof -
  have p: "0 < \<bar>x\<bar>" using assms(1) by (smt (verit) zero_less_power_int)
  have "2 powr (of_int e) \<le> \<bar>x\<bar>" using assms(1) by (simp add: powr_real_of_int')
  then have 1: "of_int e \<le> log 2 \<bar>x\<bar>" using p by (simp add: le_log_iff)
  have "\<bar>x\<bar> < 2 powr (of_int (e + 1))" using assms(2) by (simp only: powr_real_of_int' [of 2, simplified])
  then have 2: "log 2 \<bar>x\<bar> < of_int (e + 1)" using p by (simp only: log_less_iff [of 2, simplified])
  from 1 2 show ?thesis by (simp add: floor_unique)
qed

lemma to_double_nonneg: "0 \<le> x \<Longrightarrow> 0 \<le> to_double x"
  by (simp add: to_double_def Let_def round_even_nonneg)

lemma to_double_error: "\<bar>to_double x - x\<bar> \<le> \<bar>x\<bar> / 2 ^ 53"
proof (cases "x = 0")
  case True
  then show ?thesis by (simp add: to_double_def)
next
  case False
  define e where "e = \<lfloor>log 2 \<bar>x\<bar>\<rfloor>"
  define q :: real where "q = 2 powi (e - 52)"
  have q: "0 < q" by (simp add: q_def)
  have f: "to_double x = of_int (round_even (x / q)) * q"
    using False by (simp add: to_double_def e_def q_def Let_def)
  have "to_double x - x = (of_int (round_even (x / q)) - x / q) * q"
    using q by (simp add: f field_simps)
  then have "\<bar>to_double x - x\<bar> = \<bar>of_int (round_even (x / q)) - x / q\<bar> * q"
    using q by (simp add: abs_mult)
  also have "\<dots> \<le> 1 / 2 * q"
    using q round_even_error [of "x / q"] by (intro mult_right_mono) simp_all
  also have "1 / 2 * q = 2 powi e / 2 ^ 53"
    by (simp add: q_def power_int_diff)
  also have "\<dots> \<le> \<bar>x\<bar> / 2 ^ 53"
    using exponent_bounds(1) [OF False] by (simp add: e_def divide_right_mono)
  finally show ?thesis .
qed

lemma to_double_eval:
  assumes "2 powi e \<le> \<bar>x\<bar>" and "\<bar>x\<bar> < 2 powi (e + 1)"
    and "\<bar>x / 2 powi (e - 52) - of_int n\<bar> < 1 / 2"
  shows "to_double x = of_int n * 2 powi (e - 52)"
proof -
  have "x \<noteq> 0" using assms(1) by (smt (verit) zero_less_power_int)
  then show ?thesis
    by (simp add: to_double_def Let_def exponent_unique [OF assms(1,2)] round_even_unique [OF assms(3)])
qed

text \<open>For a number that is not negative, the rounding error as two linear bounds.\<close>

lemma to_double_bounds:
  assumes "0 \<le> x"
  shows "x - x / 2 ^ 53 \<le> to_double x" and "to_double x \<le> x + x / 2 ^ 53"
  using to_double_error [of x] assms by (simp_all add: abs_if split: if_splits)

lemma colorWaveSpeed_eq: "colorWaveSpeed = 1 / 2"
  unfolding colorWaveSpeed_def
  using to_double_eval [of "- 1" "0.5" "2 ^ 52"] by (simp add: power_int_minus)

lemma colorWaveFrequency_eq: "colorWaveFrequency = 3602879701896397 / 2 ^ 55"
  unfolding colorWaveFrequency_def
  using to_double_eval [of "- 4" "0.1" 7205759403792794] by (simp add: power_int_minus)

section \<open>The hue\<close>

text \<open>On a dividend that is not negative, \<open>% 1.0\<close> is the fractional part.\<close>

lemma js_rem_nonneg: "0 \<le> a \<Longrightarrow> js_rem a 1 = Some (frac a)"
  by (simp add: js_rem_def trunc_def frac_def)

lemma hue_sum_nonneg:
  assumes "0 \<le> h" and "0 \<le> t"
  shows "0 \<le> js_add (js_mul h colorWaveFrequency) (js_mul t colorWaveSpeed)"
proof -
  have "0 \<le> js_mul h colorWaveFrequency"
    unfolding js_mul_def using assms(1) by (intro to_double_nonneg) (simp add: colorWaveFrequency_eq)
  moreover have "0 \<le> js_mul t colorWaveSpeed"
    unfolding js_mul_def using assms(2) by (intro to_double_nonneg) (simp add: colorWaveSpeed_eq)
  ultimately show ?thesis
    unfolding js_add_def by (intro to_double_nonneg) simp
qed

lemma hue_nonneg:
  assumes "0 \<le> h" and "0 \<le> t"
  shows "hue h t = Some (frac (js_add (js_mul h colorWaveFrequency) (js_mul t colorWaveSpeed)))"
  unfolding hue_def using hue_sum_nonneg [OF assms] by (rule js_rem_nonneg)

text \<open>The sum of line 158 in doubles against the exact sum with \<open>F = 0.1\<close> and \<open>S = 0.5\<close>.\<close>

lemma hue_sum_error:
  assumes "0 \<le> h" and "h \<le> 1" and "0 \<le> t"
  shows "\<bar>js_add (js_mul h colorWaveFrequency) (js_mul t colorWaveSpeed) - (h * 0.1 + t * 0.5)\<bar>
           \<le> (t + 1) / 2 ^ 52"
proof -
  define p where "p = to_double (h * colorWaveFrequency)"
  define m where "m = to_double (t * colorWaveSpeed)"
  define s where "s = to_double (p + m)"
  have F: "0.1 - 0.1 / 2 ^ 53 \<le> colorWaveFrequency" "colorWaveFrequency \<le> 0.1 + 0.1 / 2 ^ 53"
    by (simp_all add: colorWaveFrequency_eq)
  have hF0: "0 \<le> h * colorWaveFrequency" using assms(1) by (simp add: colorWaveFrequency_eq)
  have hF: "h * 0.1 - h * 0.1 / 2 ^ 53 \<le> h * colorWaveFrequency"
    "h * colorWaveFrequency \<le> h * 0.1 + h * 0.1 / 2 ^ 53"
    using assms(1) by (simp_all add: colorWaveFrequency_eq)
  have tS: "t * colorWaveSpeed = t / 2" by (simp add: colorWaveSpeed_eq)
  have p: "h * colorWaveFrequency - h * colorWaveFrequency / 2 ^ 53 \<le> p"
    "p \<le> h * colorWaveFrequency + h * colorWaveFrequency / 2 ^ 53"
    unfolding p_def using to_double_bounds [OF hF0] by simp_all
  have m: "t / 2 - t / 2 / 2 ^ 53 \<le> m" "m \<le> t / 2 + t / 2 / 2 ^ 53"
    unfolding m_def tS using to_double_bounds [of "t / 2"] assms(3) by simp_all
  have p0: "0 \<le> p" unfolding p_def using hF0 by (rule to_double_nonneg)
  have m0: "0 \<le> m" unfolding m_def tS using assms(3) by (intro to_double_nonneg) simp
  have s: "p + m - (p + m) / 2 ^ 53 \<le> s" "s \<le> p + m + (p + m) / 2 ^ 53"
    unfolding s_def using to_double_bounds [of "p + m"] p0 m0 by simp_all
  have "\<bar>s - (h * 0.1 + t * 0.5)\<bar> \<le> (t + 1) / 2 ^ 52"
    using hF p m s assms p0 m0 by (simp add: abs_if field_simps) 
  then show ?thesis by (simp add: js_add_def js_mul_def p_def m_def s_def)
qed

text \<open>No input makes the height or the hue leave the finite numbers.\<close>

lemma normalizedY_finite: "normalizedY y ymin yr \<noteq> None"
  by (simp add: normalizedY_def js_div_def del: not_None_eq)

lemma hue_finite: "hue h t \<noteq> None"
  by (simp add: hue_def js_rem_def del: not_None_eq)

lemma vertexHue_finite: "vertexHue t ymin yr y \<noteq> None"
  using normalizedY_finite [of y ymin yr] hue_finite
  by (simp add: vertexHue_def split: option.split)

lemma vertexHue_Some:
  "normalizedY y ymin yr = Some h \<Longrightarrow> vertexHue t ymin yr y = hue h t"
  by (simp add: vertexHue_def)

text \<open>
  The hue of the height \<open>0.5\<close> at the times \<open>3\<close> and \<open>5\<close>: \<open>0.55000000000000004\<close> and
  \<open>0.54999999999999982\<close>, one unit in the last place apart.
\<close>

lemma hue_at_3: "hue 0.5 3 = Some (2476979795053773 / 2 ^ 52)"
proof -
  have p: "js_mul 0.5 colorWaveFrequency = 3602879701896397 / 2 ^ 56"
    unfolding js_mul_def colorWaveFrequency_eq
    using to_double_eval [of "- 5" "0.5 * (3602879701896397 / 2 ^ 55)" 7205759403792794]
    by (simp add: power_int_minus)
  have m: "js_mul 3 colorWaveSpeed = 3 / 2"
    unfolding js_mul_def colorWaveSpeed_eq
    using to_double_eval [of 0 "3 * (1 / 2)" "3 * 2 ^ 51"] by (simp add: power_int_minus)
  have s: "js_add (3602879701896397 / 2 ^ 56) (3 / 2) = 6980579422424269 / 2 ^ 52"
    unfolding js_add_def
    using to_double_eval [of 0 "3602879701896397 / 2 ^ 56 + 3 / 2" 6980579422424269]
    by (simp add: power_int_minus)
  have r: "js_rem (6980579422424269 / 2 ^ 52) 1 = Some (2476979795053773 / 2 ^ 52)"
    by (simp add: js_rem_def trunc_def)
  show ?thesis unfolding hue_def p m s by (rule r)
qed

lemma hue_at_5: "hue 0.5 5 = Some (2476979795053772 / 2 ^ 52)"
proof -
  have p: "js_mul 0.5 colorWaveFrequency = 3602879701896397 / 2 ^ 56"
    unfolding js_mul_def colorWaveFrequency_eq
    using to_double_eval [of "- 5" "0.5 * (3602879701896397 / 2 ^ 55)" 7205759403792794]
    by (simp add: power_int_minus)
  have m: "js_mul 5 colorWaveSpeed = 5 / 2"
    unfolding js_mul_def colorWaveSpeed_eq
    using to_double_eval [of 1 "5 * (1 / 2)" "5 * 2 ^ 50"] by (simp add: power_int_minus)
  have s: "js_add (3602879701896397 / 2 ^ 56) (5 / 2) = 5742089524897382 / 2 ^ 51"
    unfolding js_add_def
    using to_double_eval [of 1 "3602879701896397 / 2 ^ 56 + 5 / 2" 5742089524897382]
    by (simp add: power_int_minus)
  have r: "js_rem (5742089524897382 / 2 ^ 51) 1 = Some (2476979795053772 / 2 ^ 52)"
    by (simp add: js_rem_def trunc_def)
  show ?thesis unfolding hue_def p m s by (rule r)
qed

section \<open>The loop over the vertices\<close>

lemma length_colorLoop: "length (colorLoop f t ymin yr ps i cs) = length cs"
proof (induction f t ymin yr ps i cs rule: colorLoop.induct)
  case (1 f t ymin yr ps i cs)
  then show ?case by (subst colorLoop.simps) simp
qed

lemma colorLoop_nth:
  "k < length cs \<Longrightarrow>
   colorLoop f t ymin yr ps i cs ! k =
     (if i \<le> k \<and> k < length ps then f (vertexHue t ymin yr (getY (ps ! k))) 1 0.5 else cs ! k)"
proof (induction f t ymin yr ps i cs rule: colorLoop.induct)
  case (1 f t ymin yr ps i cs)
  show ?case
  proof (cases "i < length ps")
    case True
    then show ?thesis
      using "1.IH" "1.prems"
      by (subst colorLoop.simps) (auto simp: nth_list_update le_Suc_eq not_less_eq_eq)
  next
    case False
    then show ?thesis by (subst colorLoop.simps) auto
  qed
qed

lemma colorLoop_empty: "colorLoop f t ymin yr [] i cs = cs"
  by (subst colorLoop.simps) simp

lemma updateItem_written:
  assumes "position_attr item = Some positions" and "color_attr item = Some colorsAttribute"
    and "i < length positions" and "i < length (array colorsAttribute)"
  shows "\<exists>item' colorsAttribute'.
      updateItem setHSL t item = Inr ([], item') \<and> color_attr item' = Some colorsAttribute' \<and>
      array colorsAttribute' ! i =
        setHSL (vertexHue t (yMin item) (yRange item) (getY (positions ! i))) 1 0.5"
proof -
  define cs' where "cs' = colorLoop setHSL t (yMin item) (yRange item) positions 0
      (array colorsAttribute)"
  define item' where "item' = item\<lparr>color_attr := Some (colorsAttribute
      \<lparr>array := cs', needsUpdate := True\<rparr>)\<rparr>"
  have u: "updateItem setHSL t item = Inr ([], item')"
    by (simp add: updateItem_def assms(1,2) item'_def cs'_def)
  have c: "color_attr item' = Some (colorsAttribute\<lparr>array := cs', needsUpdate := True\<rparr>)"
    by (simp add: item'_def)
  have "cs' ! i = setHSL (vertexHue t (yMin item) (yRange item) (getY (positions ! i))) 1 0.5"
    unfolding cs'_def using assms(3,4) by (simp add: colorLoop_nth)
  then have n: "array (colorsAttribute\<lparr>array := cs', needsUpdate := True\<rparr>) ! i =
      setHSL (vertexHue t (yMin item) (yRange item) (getY (positions ! i))) 1 0.5"
    by simp
  from u c n show ?thesis by blast
qed

text \<open>
  \<open>updateColors\<close> raises nothing when every item that has a colour attribute has a
  position attribute, and then each item of the result is what the callback makes of
  the item at the same place.
\<close>

lemma updateItem_total:
  "color_attr item \<noteq> None \<longrightarrow> position_attr item \<noteq> None \<Longrightarrow>
   \<exists>w item'. updateItem setHSL t item = Inr (w, item')"
  by (auto simp: updateItem_def split: option.splits)

lemma updateColors_items:
  "\<forall>item \<in> set items. color_attr item \<noteq> None \<longrightarrow> position_attr item \<noteq> None \<Longrightarrow>
   \<exists>ws items'. updateColors setHSL t items = Inr (ws, items') \<and> length items' = length items \<and>
     (\<forall>k < length items. \<exists>w. updateItem setHSL t (items ! k) = Inr (w, items' ! k))"
proof (induction items)
  case Nil
  then show ?case by simp
next
  case (Cons item items)
  obtain w item' where i: "updateItem setHSL t item = Inr (w, item')"
    using updateItem_total [of item setHSL t] Cons.prems by auto
  obtain ws items' where r: "updateColors setHSL t items = Inr (ws, items')"
    "length items' = length items"
    "\<forall>k < length items. \<exists>w. updateItem setHSL t (items ! k) = Inr (w, items' ! k)"
    using Cons.IH Cons.prems by auto
  have "updateColors setHSL t (item # items) = Inr (w @ ws, item' # items')"
    by (simp add: i r(1))
  moreover have "\<forall>k < length (item # items).
      \<exists>w. updateItem setHSL t ((item # items) ! k) = Inr (w, (item' # items') ! k)"
    using i r(3) by (auto simp: nth_Cons split: nat.split)
  ultimately show ?case using r(2) by auto
qed

text \<open>
  Claim C1. Let \<open>updateColors\<close> run on items none of which has colours without
  positions. For a vertex of one of the items whose normalized height \<open>h\<close> is in
  \<open>[0, 1]\<close>, and an elapsed time \<open>t \<ge> 0\<close>, the call returns and the colour it has stored
  for the vertex is the one of the hue \<open>v = (h * F + t * S) mod 1\<close>, with the products
  and the sum those of the program (\<open>js_mul\<close>, \<open>js_add\<close>, \<open>F\<close> and \<open>S\<close> the doubles of
  \<open>0.1\<close> and \<open>0.5\<close>): their result is within \<open>(t + 1) / 2 ^ 52\<close> of the exact
  \<open>h * 0.1 + t * 0.5\<close>. The modulo of the claim is the fractional part \<open>frac\<close>, the \<open>%\<close>
  of the code is \<open>js_rem\<close>. The hue \<open>v\<close> is in \<open>[0, 1)\<close>.
\<close>

theorem updateColors_hue:
  assumes "\<forall>item \<in> set items. color_attr item \<noteq> None \<longrightarrow> position_attr item \<noteq> None"
    and "k < length items"
    and "position_attr (items ! k) = Some positions"
    and "color_attr (items ! k) = Some colorsAttribute"
    and "i < length positions" and "i < length (array colorsAttribute)"
    and "normalizedY (getY (positions ! i)) (yMin (items ! k)) (yRange (items ! k)) = Some h"
    and "0 \<le> h" and "h \<le> 1" and "0 \<le> t"
  shows "\<exists>ws items' colorsAttribute' v.
      updateColors setHSL t items = Inr (ws, items') \<and> length items' = length items \<and>
      color_attr (items' ! k) = Some colorsAttribute' \<and>
      array colorsAttribute' ! i = setHSL (Some v) 1 0.5 \<and>
      hue h t = Some v \<and>
      v = frac (js_add (js_mul h colorWaveFrequency) (js_mul t colorWaveSpeed)) \<and>
      \<bar>js_add (js_mul h colorWaveFrequency) (js_mul t colorWaveSpeed) - (h * 0.1 + t * 0.5)\<bar>
        \<le> (t + 1) / 2 ^ 52 \<and>
      0 \<le> v \<and> v < 1"
proof -
  define v where "v = frac (js_add (js_mul h colorWaveFrequency) (js_mul t colorWaveSpeed))"
  have h: "hue h t = Some v"
    unfolding v_def using assms(8,10) by (rule hue_nonneg)
  have f: "0 \<le> v \<and> v < 1"
    by (simp add: v_def frac_lt_1)
  have e: "\<bar>js_add (js_mul h colorWaveFrequency) (js_mul t colorWaveSpeed) - (h * 0.1 + t * 0.5)\<bar>
        \<le> (t + 1) / 2 ^ 52"
    using assms(8,9,10) by (rule hue_sum_error)
  obtain ws items' where r: "updateColors setHSL t items = Inr (ws, items')"
    "length items' = length items"
    "\<forall>k < length items. \<exists>w. updateItem setHSL t (items ! k) = Inr (w, items' ! k)"
    using updateColors_items [OF assms(1), of setHSL t] by blast
  obtain w where w: "updateItem setHSL t (items ! k) = Inr (w, items' ! k)"
    using r(3) assms(2) by blast
  obtain item' colorsAttribute' where
    i: "updateItem setHSL t (items ! k) = Inr ([], item')"
      "color_attr item' = Some colorsAttribute'"
      "array colorsAttribute' ! i =
        setHSL (vertexHue t (yMin (items ! k)) (yRange (items ! k)) (getY (positions ! i))) 1 0.5"
    using updateItem_written [OF assms(3-6), of setHSL t] by blast
  have "items' ! k = item'" using w i(1) by simp
  then have c: "color_attr (items' ! k) = Some colorsAttribute'" using i(2) by simp
  have a: "array colorsAttribute' ! i = setHSL (Some v) 1 0.5"
    using i(3) unfolding vertexHue_Some [OF assms(7)] h .
  from r(1,2) c a h e f show ?thesis unfolding v_def by blast
qed

text \<open>
  Two items, the first without colours; the second vertex of the second item has height
  \<open>1\<close>.
\<close>

theorem updateColors_hue_witness:
  "color_attr bare_item = None \<and>
   position_attr ([bare_item, wave_item] ! 1) = Some [(0, 0, 0), (0, 10, 0)] \<and>
   color_attr ([bare_item, wave_item] ! 1) =
     Some \<lparr>array = [(None, 0, 0), (None, 0, 0)], needsUpdate = False\<rparr> \<and>
   normalizedY (getY ([(0, 0, 0), (0, 10, 0)] ! 1)) (yMin ([bare_item, wave_item] ! 1))
     (yRange ([bare_item, wave_item] ! 1)) = Some 1 \<and>
   (\<exists>ws items' colorsAttribute' v.
      updateColors hsl_args 2 [bare_item, wave_item] = Inr (ws, items') \<and>
      length items' = length [bare_item, wave_item] \<and>
      color_attr (items' ! 1) = Some colorsAttribute' \<and>
      array colorsAttribute' ! 1 = hsl_args (Some v) 1 0.5 \<and>
      hue 1 2 = Some v \<and>
      v = frac (js_add (js_mul 1 colorWaveFrequency) (js_mul 2 colorWaveSpeed)) \<and>
      \<bar>js_add (js_mul 1 colorWaveFrequency) (js_mul 2 colorWaveSpeed) - (1 * 0.1 + 2 * 0.5)\<bar>
        \<le> (2 + 1) / 2 ^ 52 \<and>
      0 \<le> v \<and> v < 1)"
proof -
  have a: "\<forall>item \<in> set [bare_item, wave_item].
      color_attr item \<noteq> None \<longrightarrow> position_attr item \<noteq> None"
    by (simp add: bare_item_def wave_item_def)
  have k: "1 < length [bare_item, wave_item]" by simp
  have p: "position_attr ([bare_item, wave_item] ! 1) = Some [(0, 0, 0), (0, 10, 0)]"
    and c: "color_attr ([bare_item, wave_item] ! 1) =
      Some \<lparr>array = [(None, 0, 0), (None, 0, 0)], needsUpdate = False\<rparr>"
    by (simp_all add: wave_item_def)
  have i: "1 < length [(0, 0, 0), (0, 10, 0) :: real \<times> real \<times> real]"
    and j: "1 < length (array \<lparr>array = [(None, 0, 0), (None, 0, 0) :: real option \<times> real \<times> real],
      needsUpdate = False\<rparr>)"
    by simp_all
  have t10: "to_double 10 = 10"
    using to_double_eval [of 3 10 "10 * 2 ^ 49"] by (simp add: power_int_minus)
  have t1: "to_double 1 = 1"
    using to_double_eval [of 0 1 "2 ^ 52"] by (simp add: power_int_minus)
  have n: "normalizedY (getY ([(0, 0, 0), (0, 10, 0)] ! 1)) (yMin ([bare_item, wave_item] ! 1))
     (yRange ([bare_item, wave_item] ! 1)) = Some 1"
    by (simp add: normalizedY_def js_div_def js_sub_def getY_def wave_item_def t10 t1)
  have b: "(0::real) \<le> 1" "(1::real) \<le> 1" "(0::real) \<le> 2"
    by simp_all
  have m: "color_attr bare_item = None" by (simp add: bare_item_def)
  from updateColors_hue [OF a k p c i j n b, where setHSL = hsl_args] m p c n show ?thesis
    by (intro conjI)
qed

section \<open>The degenerate extent\<close>

text \<open>
  Claim C4. When \<open>yMax = yMin\<close>, so that \<open>yRange = yMax - yMin\<close> is \<open>0\<close>, the normalized
  height of every vertex is exactly \<open>0.5\<close>: the division is not reached, the height and
  the hue are finite numbers, and the colour stored for the vertex is the one of the hue
  of the height \<open>0.5\<close>.
\<close>

theorem degenerate_extent:
  assumes "ymax = ymin" and "yRange item = ymax - ymin"
    and "position_attr item = Some positions" and "color_attr item = Some colorsAttribute"
    and "i < length positions" and "i < length (array colorsAttribute)"
  shows "normalizedY (getY (positions ! i)) (yMin item) (yRange item) = Some 0.5 \<and>
    (\<exists>v item' colorsAttribute'.
       hue 0.5 t = Some v \<and>
       updateItem setHSL t item = Inr ([], item') \<and> color_attr item' = Some colorsAttribute' \<and>
       array colorsAttribute' ! i = setHSL (Some v) 1 0.5)"
proof -
  have z: "yRange item = 0" using assms(1,2) by simp
  have n: "normalizedY (getY (positions ! i)) (yMin item) (yRange item) = Some 0.5"
    by (simp add: normalizedY_def z)
  obtain v where v: "hue 0.5 t = Some v"
    using hue_finite [of "0.5" t] by blast
  from updateItem_written [OF assms(3-6), of setHSL t] n v show ?thesis
    unfolding vertexHue_Some [OF n] by auto
qed

theorem degenerate_extent_witness:
  "(3::real) = 3 \<and> yRange flat_item = 3 - 3 \<and>
   normalizedY (getY ([(1, 3, 0), (2, 3, 5)] ! 1)) (yMin flat_item) (yRange flat_item) = Some 0.5 \<and>
   (\<exists>v item' colorsAttribute'.
       hue 0.5 7 = Some v \<and>
       updateItem hsl_args 7 flat_item = Inr ([], item') \<and>
       color_attr item' = Some colorsAttribute' \<and>
       array colorsAttribute' ! 1 = hsl_args (Some v) 1 0.5)"
proof -
  have y: "yRange flat_item = 3 - 3"
    and p: "position_attr flat_item = Some [(1, 3, 0), (2, 3, 5)]"
    and c: "color_attr flat_item =
      Some \<lparr>array = [(None, 0, 0), (None, 0, 0)], needsUpdate = False\<rparr>"
    by (simp_all add: flat_item_def)
  have i: "1 < length [(1, 3, 0), (2, 3, 5) :: real \<times> real \<times> real]"
    and j: "1 < length (array \<lparr>array = [(None, 0, 0), (None, 0, 0) :: real option \<times> real \<times> real],
      needsUpdate = False\<rparr>)"
    by simp_all
  from degenerate_extent [OF refl y p c i j, where setHSL = hsl_args and t = 7] y show ?thesis
    by (intro conjI) simp_all
qed

section \<open>The period of the wave\<close>

text \<open>
  Claim C7, as stated: the hue at \<open>t + 1 / S\<close> is the hue at \<open>t\<close>. In the arithmetic of
  the program it is not, with the speed \<open>S = 0.5\<close> of the code: for the height \<open>0.5\<close>
  the hue at \<open>t = 3\<close> and the hue at \<open>t + 1 / S = 5\<close> differ in the last place.
\<close>

theorem hue_periodic_counterexample:
  "(0::real) \<le> 0.5 \<and> (0.5::real) \<le> 1 \<and> (0::real) \<le> 3 \<and> colorWaveSpeed \<noteq> 0 \<and>
   hue 0.5 (3 + 1 / colorWaveSpeed) \<noteq> hue 0.5 3"
proof -
  have "(3::real) + 1 / colorWaveSpeed = 5" by (simp add: colorWaveSpeed_eq)
  moreover have "hue 0.5 5 \<noteq> hue 0.5 3"
    unfolding hue_at_3 hue_at_5 by simp
  ultimately show ?thesis by (simp add: colorWaveSpeed_eq)
qed

lemma frac_diff_int:
  "frac b - frac a - of_int (1 + \<lfloor>a\<rfloor> - \<lfloor>b\<rfloor>) = b - a - 1"
  by (simp add: frac_def)

text \<open>
  Claim C7, amended. With the speed \<open>S = 0.5\<close> of the code, for every height \<open>h\<close> in
  \<open>[0, 1]\<close> and every time \<open>t \<ge> 0\<close>, let \<open>t2\<close> be the time \<open>t + 1 / S\<close>, exactly or
  rounded to a double. The hues at \<open>t\<close> and at \<open>t2\<close> are both in \<open>[0, 1)\<close> and are equal
  up to rounding: modulo \<open>1\<close>, they differ by at most \<open>(t + 2) / 2 ^ 51\<close>.
\<close>

theorem hue_periodic_up_to_rounding:
  assumes "0 \<le> h" and "h \<le> 1" and "0 \<le> t"
    and "\<bar>t2 - (t + 1 / colorWaveSpeed)\<bar> \<le> (t + 1 / colorWaveSpeed) / 2 ^ 53"
  shows "\<exists>a b. \<exists>k::int. hue h t = Some a \<and> hue h t2 = Some b \<and>
           0 \<le> a \<and> a < 1 \<and> 0 \<le> b \<and> b < 1 \<and>
           \<bar>b - a - of_int k\<bar> \<le> (t + 2) / 2 ^ 51"
proof -
  define p where "p = to_double (h * colorWaveFrequency)"
  define m where "m = to_double (t * colorWaveSpeed)"
  define m' where "m' = to_double (t2 * colorWaveSpeed)"
  define a where "a = to_double (p + m)"
  define b where "b = to_double (p + m')"
  have "\<bar>t2 - (t + 2)\<bar> \<le> (t + 2) / 2 ^ 53"
    using assms(4) by (simp add: colorWaveSpeed_eq)
  then have "t2 - (t + 2) \<le> (t + 2) / 2 ^ 53" "- (t2 - (t + 2)) \<le> (t + 2) / 2 ^ 53"
    by (rule abs_le_D1, rule abs_le_D2)
  then have t2: "t + 2 - (t + 2) / 2 ^ 53 \<le> t2" "t2 \<le> t + 2 + (t + 2) / 2 ^ 53"
    by linarith+
  have t20: "0 \<le> t2" using t2(1) assms(3) by (simp add: field_simps)
  have hF0: "0 \<le> h * colorWaveFrequency" using assms(1) by (simp add: colorWaveFrequency_eq)
  have hF: "h * colorWaveFrequency \<le> 1 / 8"
    using assms(1,2) by (simp add: colorWaveFrequency_eq)
  have p0: "0 \<le> p" unfolding p_def using hF0 by (rule to_double_nonneg)
  have p1: "p \<le> 1 / 4"
    unfolding p_def using to_double_bounds(2) [OF hF0] hF hF0 by (simp add: field_simps)
  have tS: "t * colorWaveSpeed = t / 2" "t2 * colorWaveSpeed = t2 / 2"
    by (simp_all add: colorWaveSpeed_eq)
  have m: "t / 2 - t / 2 / 2 ^ 53 \<le> m" "m \<le> t / 2 + t / 2 / 2 ^ 53"
    unfolding m_def tS using to_double_bounds [of "t / 2"] assms(3) by simp_all
  have m': "t2 / 2 - t2 / 2 / 2 ^ 53 \<le> m'" "m' \<le> t2 / 2 + t2 / 2 / 2 ^ 53"
    unfolding m'_def tS using to_double_bounds [of "t2 / 2"] t20 by simp_all
  have m0: "0 \<le> m" unfolding m_def tS using assms(3) by (intro to_double_nonneg) simp
  have m'0: "0 \<le> m'" unfolding m'_def tS using t20 by (intro to_double_nonneg) simp
  have a: "p + m - (p + m) / 2 ^ 53 \<le> a" "a \<le> p + m + (p + m) / 2 ^ 53"
    unfolding a_def using to_double_bounds [of "p + m"] p0 m0 by simp_all
  have b: "p + m' - (p + m') / 2 ^ 53 \<le> b" "b \<le> p + m' + (p + m') / 2 ^ 53"
    unfolding b_def using to_double_bounds [of "p + m'"] p0 m'0 by simp_all
  have d: "\<bar>b - a - 1\<bar> \<le> (t + 2) / 2 ^ 51"
    using t2 m m' a b p0 p1 assms(3) by (simp add: abs_if field_simps)
  have ha: "hue h t = Some (frac a)"
    using hue_nonneg [OF assms(1,3)] by (simp add: a_def p_def m_def js_add_def js_mul_def)
  have hb: "hue h t2 = Some (frac b)"
    using hue_nonneg [OF assms(1) t20] by (simp add: b_def p_def m'_def js_add_def js_mul_def)
  have "\<bar>frac b - frac a - of_int (1 + \<lfloor>a\<rfloor> - \<lfloor>b\<rfloor>)\<bar> \<le> (t + 2) / 2 ^ 51"
    using d by (simp only: frac_diff_int)
  moreover have "0 \<le> frac a \<and> frac a < 1 \<and> 0 \<le> frac b \<and> frac b < 1"
    by (simp add: frac_lt_1)
  ultimately show ?thesis using ha hb by blast
qed

theorem hue_periodic_up_to_rounding_witness:
  "(0::real) \<le> 0.5 \<and> (0.5::real) \<le> 1 \<and> (0::real) \<le> 3 \<and>
   \<bar>5 - (3 + 1 / colorWaveSpeed)\<bar> \<le> (3 + 1 / colorWaveSpeed) / 2 ^ 53 \<and>
   (\<exists>a b. \<exists>k::int. hue 0.5 3 = Some a \<and> hue 0.5 5 = Some b \<and>
           0 \<le> a \<and> a < 1 \<and> 0 \<le> b \<and> b < 1 \<and>
           \<bar>b - a - of_int k\<bar> \<le> (3 + 2) / 2 ^ 51)"
proof -
  have a: "(0::real) \<le> 0.5" and b: "(0.5::real) \<le> 1" and c: "(0::real) \<le> 3" by simp_all
  have d: "\<bar>5 - (3 + 1 / colorWaveSpeed)\<bar> \<le> (3 + 1 / colorWaveSpeed) / 2 ^ 53"
    by (simp add: colorWaveSpeed_eq)
  from hue_periodic_up_to_rounding [OF a b c d] a b c d show ?thesis by (intro conjI)
qed

text \<open>
  The remainder has the sign of the dividend: a negative dividend, as a negative speed
  would give, has a negative remainder and not the fractional part.
\<close>

lemma js_rem_negative: "js_rem (- 0.95) 1 = Some (- 0.95) \<and> frac (- 0.95 :: real) = 0.05"
  by (simp add: js_rem_def trunc_def frac_def)

section \<open>Missing colour attribute, and no items\<close>

text \<open>
  Claim C8. For an item without colour attribute the callback logs the warning, leaves
  the item as it is and raises nothing, and \<open>updateColors\<close> goes on with the items after
  it: the result for the list is the result for the rest, with the warning and the
  unchanged item in front.
\<close>

theorem missing_color_attribute:
  assumes "color_attr item = None"
  shows "updateItem setHSL time item = Inr ([missing_color_warning], item) \<and>
    updateColors setHSL time (item # rest) =
      (case updateColors setHSL time rest of
         Inl err \<Rightarrow> Inl err
       | Inr (ws, rest') \<Rightarrow> Inr (missing_color_warning # ws, item # rest'))"
  using assms by (simp add: updateItem_def split: sum.split prod.split)

theorem missing_color_attribute_witness:
  "color_attr bare_item = None \<and>
   updateItem hsl_args 2 bare_item = Inr ([missing_color_warning], bare_item) \<and>
   updateColors hsl_args 2 [bare_item] = Inr ([missing_color_warning], [bare_item])"
proof -
  have c: "color_attr bare_item = None" by (simp add: bare_item_def)
  from missing_color_attribute [OF c, where setHSL = hsl_args and time = 2 and rest = "[]"] c show ?thesis by simp
qed

lemma all_missing:
  "\<forall>item \<in> set items. color_attr item = None \<Longrightarrow>
   updateColors setHSL time items = Inr (replicate (length items) missing_color_warning, items)"
  by (induction items) (simp_all add: updateItem_def)

text \<open>
  Claim C9. With no items in \<open>atomMeshes\<close>, \<open>updateColors\<close> returns normally, logs
  nothing and changes nothing: there is no buffer it could write.
\<close>

theorem no_elements:
  "updateColors setHSL time [] = Inr ([], [])"
  by simp

text \<open>An item whose geometry has no vertices keeps its colours; only the flag is set.\<close>

lemma empty_geometry:
  "position_attr item = Some [] \<Longrightarrow> color_attr item = Some ca \<Longrightarrow>
   updateItem setHSL time item = Inr ([], item\<lparr>color_attr := Some (ca\<lparr>needsUpdate := True\<rparr>)\<rparr>)"
  by (simp add: updateItem_def colorLoop_empty)

end

